theory Spec2Isabelle
  imports Main
begin

section \<open>Ingress policy translation: pkg/catalog/ingress.go\<close>

subsection \<open>Constants of the file\<close>

definition prefixMatchPathElementsRegex :: string where
  "prefixMatchPathElementsRegex = ''(/.*)?$''"

definition commonRegexChars :: string where
  "commonRegexChars = ''^$*+[]%|''"

subsection \<open>Go library functions used by the file\<close>

text \<open>
  \<^verbatim>\<open>strings.TrimRight(s, cutset)\<close> removes every trailing character of \<open>s\<close> that occurs
  in \<open>cutset\<close>; \<^verbatim>\<open>strings.ContainsAny(s, chars)\<close> holds when some character of \<open>chars\<close>
  occurs in \<open>s\<close>. Both cutsets used here are ASCII, and an ASCII byte never occurs inside
  a multi-byte UTF-8 sequence, so working on bytes gives what Go computes on code points.
\<close>

definition TrimRight :: "string \<Rightarrow> string \<Rightarrow> string" where
  "TrimRight s cutset = rev (dropWhile (\<lambda>c. c \<in> set cutset) (rev s))"

definition ContainsAny :: "string \<Rightarrow> string \<Rightarrow> bool" where
  "ContainsAny s chars = list_ex (\<lambda>c. c \<in> set chars) s"

subsection \<open>Path types of the Kubernetes ingress API\<close>

text \<open>
  \<^verbatim>\<open>PathType\<close> is a string type in both \<^verbatim>\<open>networking/v1\<close> and \<^verbatim>\<open>networking/v1beta1\<close>; the
  three tags the \<^verbatim>\<open>switch\<close> statements compare against are string constants. A path entry
  holds a pointer to its path type, which is \<open>None\<close> when the field is unset.
\<close>

type_synonym PathType = string

definition PathTypeExact :: PathType where
  "PathTypeExact = ''Exact''"

definition PathTypePrefix :: PathType where
  "PathTypePrefix = ''Prefix''"

definition PathTypeImplementationSpecific :: PathType where
  "PathTypeImplementationSpecific = ''ImplementationSpecific''"

subsection \<open>Route matches\<close>

datatype PathMatchType = PathMatchRegex | PathMatchExact | PathMatchPrefix

record HTTPRouteMatch =
  Path :: string
  PathMatchType :: PathMatchType
  Methods :: "string list"

text \<open>
  Modelled from the spec: the wildcard token of package \<^verbatim>\<open>constants\<close> is not in the file.
  It stands for all methods in a route match and for the wildcard host.
\<close>

definition WildcardHTTPMethod :: string where
  "WildcardHTTPMethod = ''*''"

text \<open>
  What can stop a call without a returned value: a failed merge (the merge call has a single
  result, so its failure cannot come back as an error value) and the dereference of a nil
  pointer. Neither is recovered anywhere in the file, so both unwind through every caller.
  The pointers the file dereferences without a nil test are the path type of a path entry
  (in the log statement of the default branch), \<^verbatim>\<open>rule.HTTP\<close> (both schema versions) and
  \<^verbatim>\<open>Backend.Service\<close> (version v1 only); the condition records which of them was nil.
\<close>

datatype pointer = PathTypePointer | RuleHTTPPointer | BackendServicePointer

datatype condition = AmbiguousHostnameOverlap | NilPointerDereference pointer


subsection \<open>Services and weighted clusters\<close>

text \<open>
  A mesh service as the file uses it: the extractors read \<^verbatim>\<open>svc.Name\<close>, the traffic match
  names print the service with \<^verbatim>\<open>%s\<close>, and the SNI match calls \<^verbatim>\<open>svc.ServerName()\<close>. The
  two methods live in \<^verbatim>\<open>pkg/service\<close>; their results for a given service are carried
  by the fields \<open>svcString\<close> and \<open>ServerName\<close>.
\<close>

record MeshService =
  Namespace :: string
  Name :: string
  svcString :: string
  ServerName :: string

record WeightedCluster =
  ClusterName :: string
  Weight :: nat

text \<open>
  Modelled from the spec: \<^verbatim>\<open>getDefaultWeightedClusterForService\<close> is defined in another
  file of the package, and the full weight in package \<^verbatim>\<open>constants\<close>. The spec: ingress
  always produces a single full-weight cluster per service.
\<close>

definition ClusterWeightAcceptAll :: nat where
  "ClusterWeightAcceptAll = 100"

definition getDefaultWeightedClusterForService :: "MeshService \<Rightarrow> WeightedCluster" where
  "getDefaultWeightedClusterForService svc =
     \<lparr>ClusterName = svcString svc, Weight = ClusterWeightAcceptAll\<rparr>"

subsection \<open>Inbound traffic policies (package trafficpolicy)\<close>

text \<open>
  Modelled from the spec: the wildcard identity of package \<^verbatim>\<open>identity\<close> is not in the
  file. The spec: ingress traffic is attributed to a wildcard identity.
\<close>

type_synonym ServiceIdentity = string

definition WildcardServiceIdentity :: ServiceIdentity where
  "WildcardServiceIdentity = ''*''"

record RouteWeightedClusters =
  HTTPRouteMatch :: HTTPRouteMatch
  WeightedClusters :: "WeightedCluster list"

record Rule =
  Route :: RouteWeightedClusters
  AllowedServiceIdentities :: "ServiceIdentity list"

record InboundTrafficPolicy =
  PolicyName :: string
  Hostnames :: "string list"
  Rules :: "Rule list"

text \<open>
  Modelled from the spec: the wildcard route match of package \<^verbatim>\<open>trafficpolicy\<close> is not in
  the file. The spec: wildcard path match, all methods.
\<close>

definition WildCardRouteMatch :: HTTPRouteMatch where
  "WildCardRouteMatch =
     \<lparr>Path = ''.*'', PathMatchType = PathMatchRegex, Methods = [WildcardHTTPMethod]\<rparr>"

text \<open>
  Modelled from the spec: the constructors and \<^verbatim>\<open>AddRule\<close> of package \<^verbatim>\<open>trafficpolicy\<close>
  are not in the file. The spec: a policy is named and keyed by its hostnames and holds an
  ordered list of rules; the extractor appends a rule (route match to the weighted clusters,
  with the permitted caller identity) to the per-hostname policy.
\<close>

definition NewRouteWeightedCluster ::
    "HTTPRouteMatch \<Rightarrow> WeightedCluster list \<Rightarrow> RouteWeightedClusters" where
  "NewRouteWeightedCluster route weightedClusters =
     \<lparr>HTTPRouteMatch = route, WeightedClusters = weightedClusters\<rparr>"

definition NewInboundTrafficPolicy :: "string \<Rightarrow> string list \<Rightarrow> InboundTrafficPolicy" where
  "NewInboundTrafficPolicy name hostnames =
     \<lparr>PolicyName = name, Hostnames = hostnames, Rules = []\<rparr>"

definition AddRule ::
    "InboundTrafficPolicy \<Rightarrow> RouteWeightedClusters \<Rightarrow> ServiceIdentity \<Rightarrow> InboundTrafficPolicy" where
  "AddRule p route allowedServiceIdentity =
     p\<lparr>Rules := Rules p @ [\<lparr>Route = route, AllowedServiceIdentities = [allowedServiceIdentity]\<rparr>]\<rparr>"

subsection \<open>Policy merger (package trafficpolicy)\<close>

datatype strategy = DisallowPartialHostnamesMatch

definition sameHostnames :: "InboundTrafficPolicy \<Rightarrow> InboundTrafficPolicy \<Rightarrow> bool" where
  "sameHostnames p q = (set (Hostnames p) = set (Hostnames q))"

definition disjointHostnames :: "InboundTrafficPolicy \<Rightarrow> InboundTrafficPolicy \<Rightarrow> bool" where
  "disjointHostnames p q = (set (Hostnames p) \<inter> set (Hostnames q) = {})"

definition partialOverlap :: "InboundTrafficPolicy \<Rightarrow> InboundTrafficPolicy \<Rightarrow> bool" where
  "partialOverlap p q = (\<not> sameHostnames p q \<and> \<not> disjointHostnames p q)"

fun appendRules :: "InboundTrafficPolicy list \<Rightarrow> InboundTrafficPolicy \<Rightarrow> InboundTrafficPolicy list" where
  "appendRules [] candidate = []"
| "appendRules (p # ps) candidate =
     (if sameHostnames p candidate then p\<lparr>Rules := Rules p @ Rules candidate\<rparr> # ps
      else p # appendRules ps candidate)"

text \<open>
  Modelled from the spec: \<^verbatim>\<open>MergeInboundPolicies\<close> is not in the file; its call sites pass
  the strategy, the accumulated list and the candidate, and bind one result. The spec: when
  the candidate's hostname set is that of an existing policy, the candidate's rules are
  appended to that policy, in order and without removing duplicates; when it is disjoint
  from every existing one, the candidate is appended as a new entry; when it partially
  overlaps an existing one (neither identical nor disjoint), the merge fails with
  \<open>AmbiguousHostnameOverlap\<close>. The failure is the \<open>Inl\<close> result.
\<close>

definition MergeInboundPolicies ::
    "strategy \<Rightarrow> InboundTrafficPolicy list \<Rightarrow> InboundTrafficPolicy
       \<Rightarrow> condition + InboundTrafficPolicy list" where
  "MergeInboundPolicies s original latest =
     (if list_ex (\<lambda>p. partialOverlap p latest) original then Inl AmbiguousHostnameOverlap
      else if list_ex (\<lambda>p. sameHostnames p latest) original then Inr (appendRules original latest)
      else Inr (original @ [latest]))"

definition getIngressTrafficPolicyName :: "string \<Rightarrow> string \<Rightarrow> string \<Rightarrow> string" where
  "getIngressTrafficPolicyName name namespace host = name @ ''.'' @ namespace @ ''|'' @ host"


subsection \<open>Ingress objects, schema version networking/v1beta1\<close>

text \<open>
  The fields the extractor reads, named as in the Go API. \<^verbatim>\<open>Spec.Backend\<close> and
  \<^verbatim>\<open>PathType\<close> are pointers the source tests against nil; \<^verbatim>\<open>rule.HTTP\<close> is a pointer
  the source reads without a test (line 167). All three are options.
\<close>

record ObjectMeta =
  metaName :: string
  metaNamespace :: string

record IngressBackend_v1beta1 =
  ServiceName :: string

record HTTPIngressPath_v1beta1 =
  Path_v1beta1 :: string
  PathType_v1beta1 :: "PathType option"
  Backend_v1beta1 :: IngressBackend_v1beta1

record HTTPIngressRuleValue_v1beta1 =
  Paths_v1beta1 :: "HTTPIngressPath_v1beta1 list"

record IngressRule_v1beta1 =
  Host_v1beta1 :: string
  HTTP_v1beta1 :: "HTTPIngressRuleValue_v1beta1 option"

record IngressSpec_v1beta1 =
  SpecBackend_v1beta1 :: "IngressBackend_v1beta1 option"
  SpecRules_v1beta1 :: "IngressRule_v1beta1 list"

record Ingress_v1beta1 =
  ObjectMeta_v1beta1 :: ObjectMeta
  Spec_v1beta1 :: IngressSpec_v1beta1

subsection \<open>Ingress objects, schema version networking/v1\<close>

text \<open>
  In this version the service name of a backend sits one level deeper
  (\<^verbatim>\<open>Backend.Service.Name\<close>) and the default backend is \<^verbatim>\<open>Spec.DefaultBackend\<close>.
  \<^verbatim>\<open>Backend.Service\<close> is a pointer, nil for a backend that is a resource and not a
  service; the source reads it without a test (lines 258 and 272), as it does \<^verbatim>\<open>rule.HTTP\<close>
  (line 271). Both are options.
\<close>

record IngressServiceBackend_v1 =
  ServiceBackendName :: string

record IngressBackend_v1 =
  Service_v1 :: "IngressServiceBackend_v1 option"

record HTTPIngressPath_v1 =
  Path_v1 :: string
  PathType_v1 :: "PathType option"
  Backend_v1 :: IngressBackend_v1

record HTTPIngressRuleValue_v1 =
  Paths_v1 :: "HTTPIngressPath_v1 list"

record IngressRule_v1 =
  Host_v1 :: string
  HTTP_v1 :: "HTTPIngressRuleValue_v1 option"

record IngressSpec_v1 =
  SpecDefaultBackend_v1 :: "IngressBackend_v1 option"
  SpecRules_v1 :: "IngressRule_v1 list"

record Ingress_v1 =
  ObjectMeta_v1 :: ObjectMeta
  Spec_v1 :: IngressSpec_v1

subsection \<open>Errors and the mesh catalog\<close>

datatype error = ErrorString string | Wrapf error string

text \<open>
  The collaborators of the catalog: the ingress monitor (one fetch per schema version),
  the port-to-protocol lookup and the configurator's flags. A Go call returning
  \<^verbatim>\<open>(value, error)\<close> is a pair whose second component is \<open>None\<close> for a nil error. The
  port map is given as the list of its entries in the order the \<^verbatim>\<open>range\<close> statement
  visits them.
\<close>

record MeshCatalog =
  GetIngressNetworkingV1 :: "MeshService \<Rightarrow> Ingress_v1 list \<times> error option"
  GetIngressNetworkingV1beta1 :: "MeshService \<Rightarrow> Ingress_v1beta1 list \<times> error option"
  GetTargetPortToProtocolMappingForService :: "MeshService \<Rightarrow> (nat \<times> string) list \<times> error option"
  UseHTTPSIngress :: bool
  EnableIngressBackendPolicy :: bool

subsection \<open>Extractor for networking/v1beta1 (lines 138 to 239)\<close>

text \<open>
  The \<^verbatim>\<open>switch\<close> on the path type, lines 172 to 227. \<open>Inr (Some m)\<close> is the route match
  handed to \<^verbatim>\<open>AddRule\<close>; \<open>Inr None\<close> is the \<^verbatim>\<open>continue\<close> of the default branch. The log
  statement of that branch dereferences \<^verbatim>\<open>ingressPath.PathType\<close>, which panics when the
  pointer is nil.
\<close>

definition pathTypeSwitch_v1beta1 ::
    "HTTPIngressPath_v1beta1 \<Rightarrow> condition + HTTPRouteMatch option" where
  "pathTypeSwitch_v1beta1 ingressPath =
     (let pathType = (case PathType_v1beta1 ingressPath of
                        None \<Rightarrow> PathTypeImplementationSpecific
                      | Some t \<Rightarrow> t)
      in if pathType = PathTypeExact then
           Inr (Some \<lparr>Path = Path_v1beta1 ingressPath, PathMatchType = PathMatchExact,
                      Methods = [WildcardHTTPMethod]\<rparr>)
         else if pathType = PathTypePrefix then
           (if Path_v1beta1 ingressPath = ''/'' then
              Inr (Some \<lparr>Path = Path_v1beta1 ingressPath, PathMatchType = PathMatchPrefix,
                         Methods = [WildcardHTTPMethod]\<rparr>)
            else
              Inr (Some \<lparr>Path = TrimRight (Path_v1beta1 ingressPath) ''/'' @ prefixMatchPathElementsRegex,
                         PathMatchType = PathMatchRegex, Methods = [WildcardHTTPMethod]\<rparr>))
         else if pathType = PathTypeImplementationSpecific then
           (if ContainsAny (Path_v1beta1 ingressPath) commonRegexChars then
              Inr (Some \<lparr>Path = Path_v1beta1 ingressPath, PathMatchType = PathMatchRegex,
                         Methods = [WildcardHTTPMethod]\<rparr>)
            else
              Inr (Some \<lparr>Path = Path_v1beta1 ingressPath, PathMatchType = PathMatchPrefix,
                         Methods = [WildcardHTTPMethod]\<rparr>))
         else (case PathType_v1beta1 ingressPath of
                 None \<Rightarrow> Inl (NilPointerDereference PathTypePointer)
               | Some t \<Rightarrow> Inr None))"

text \<open>The loop over the paths of one rule, lines 167 to 230.\<close>

fun pathsLoop_v1beta1 ::
    "MeshService \<Rightarrow> WeightedCluster \<Rightarrow> HTTPIngressPath_v1beta1 list \<Rightarrow> InboundTrafficPolicy
       \<Rightarrow> condition + InboundTrafficPolicy" where
  "pathsLoop_v1beta1 svc ingressWeightedCluster [] ingressPolicy = Inr ingressPolicy"
| "pathsLoop_v1beta1 svc ingressWeightedCluster (ingressPath # rest) ingressPolicy =
     (if ServiceName (Backend_v1beta1 ingressPath) \<noteq> Name svc then
        pathsLoop_v1beta1 svc ingressWeightedCluster rest ingressPolicy
      else case pathTypeSwitch_v1beta1 ingressPath of
             Inl c \<Rightarrow> Inl c
           | Inr None \<Rightarrow> pathsLoop_v1beta1 svc ingressWeightedCluster rest ingressPolicy
           | Inr (Some httpRouteMatch) \<Rightarrow>
               pathsLoop_v1beta1 svc ingressWeightedCluster rest
                 (AddRule ingressPolicy
                    (NewRouteWeightedCluster httpRouteMatch [ingressWeightedCluster])
                    WildcardServiceIdentity))"

text \<open>
  The loop over the rules of one ingress object, lines 160 to 236. The \<^verbatim>\<open>range\<close> over
  \<^verbatim>\<open>rule.HTTP.Paths\<close> panics when \<^verbatim>\<open>rule.HTTP\<close> is nil.
\<close>

fun rulesLoop_v1beta1 ::
    "MeshService \<Rightarrow> WeightedCluster \<Rightarrow> Ingress_v1beta1 \<Rightarrow> IngressRule_v1beta1 list
       \<Rightarrow> InboundTrafficPolicy list \<Rightarrow> condition + InboundTrafficPolicy list" where
  "rulesLoop_v1beta1 svc ingressWeightedCluster ingress [] inboundIngressPolicies =
     Inr inboundIngressPolicies"
| "rulesLoop_v1beta1 svc ingressWeightedCluster ingress (rule # rest) inboundIngressPolicies =
     (let domain = (if Host_v1beta1 rule = [] then WildcardHTTPMethod else Host_v1beta1 rule);
          ingressPolicy = NewInboundTrafficPolicy
            (getIngressTrafficPolicyName (metaName (ObjectMeta_v1beta1 ingress))
               (metaNamespace (ObjectMeta_v1beta1 ingress)) domain) [domain]
      in case HTTP_v1beta1 rule of
           None \<Rightarrow> Inl (NilPointerDereference RuleHTTPPointer)
         | Some http \<Rightarrow>
             (case pathsLoop_v1beta1 svc ingressWeightedCluster (Paths_v1beta1 http)
                     ingressPolicy of
                Inl c \<Rightarrow> Inl c
              | Inr ingressPolicy' \<Rightarrow>
                  if length (Rules ingressPolicy') > 0 then
                    (case MergeInboundPolicies DisallowPartialHostnamesMatch
                            inboundIngressPolicies ingressPolicy' of
                       Inl c \<Rightarrow> Inl c
                     | Inr merged \<Rightarrow>
                         rulesLoop_v1beta1 svc ingressWeightedCluster ingress rest merged)
                  else rulesLoop_v1beta1 svc ingressWeightedCluster ingress rest
                         inboundIngressPolicies))"

text \<open>The wildcard policy of a default backend, lines 155 and 156.\<close>

definition wildcardIngressPolicy :: "ObjectMeta \<Rightarrow> WeightedCluster \<Rightarrow> InboundTrafficPolicy" where
  "wildcardIngressPolicy meta ingressWeightedCluster =
     AddRule
       (NewInboundTrafficPolicy
          (getIngressTrafficPolicyName (metaName meta) (metaNamespace meta) WildcardHTTPMethod)
          [WildcardHTTPMethod])
       (NewRouteWeightedCluster WildCardRouteMatch [ingressWeightedCluster])
       WildcardServiceIdentity"

text \<open>The loop over the ingress objects, lines 153 to 237.\<close>

fun ingressesLoop_v1beta1 ::
    "MeshService \<Rightarrow> WeightedCluster \<Rightarrow> Ingress_v1beta1 list \<Rightarrow> InboundTrafficPolicy list
       \<Rightarrow> condition + InboundTrafficPolicy list" where
  "ingressesLoop_v1beta1 svc ingressWeightedCluster [] inboundIngressPolicies =
     Inr inboundIngressPolicies"
| "ingressesLoop_v1beta1 svc ingressWeightedCluster (ingress # rest) inboundIngressPolicies =
     (case (case SpecBackend_v1beta1 (Spec_v1beta1 ingress) of
              None \<Rightarrow> Inr inboundIngressPolicies
            | Some backend \<Rightarrow>
                if ServiceName backend = Name svc then
                  MergeInboundPolicies DisallowPartialHostnamesMatch inboundIngressPolicies
                    (wildcardIngressPolicy (ObjectMeta_v1beta1 ingress) ingressWeightedCluster)
                else Inr inboundIngressPolicies) of
        Inl c \<Rightarrow> Inl c
      | Inr afterBackend \<Rightarrow>
          (case rulesLoop_v1beta1 svc ingressWeightedCluster ingress
                  (SpecRules_v1beta1 (Spec_v1beta1 ingress)) afterBackend of
             Inl c \<Rightarrow> Inl c
           | Inr afterRules \<Rightarrow> ingressesLoop_v1beta1 svc ingressWeightedCluster rest afterRules))"

text \<open>
  The extractor. A nil slice and an empty one are the same list: the only test the file
  makes on the result is after \<^verbatim>\<open>append\<close> in the fan-out, where both give nil.
\<close>

definition getIngressPoliciesNetworkingV1beta1 ::
    "MeshCatalog \<Rightarrow> MeshService \<Rightarrow> condition + (InboundTrafficPolicy list \<times> error option)" where
  "getIngressPoliciesNetworkingV1beta1 mc svc =
     (case GetIngressNetworkingV1beta1 mc svc of
        (ingresses, Some err) \<Rightarrow> Inr ([], Some err)
      | (ingresses, None) \<Rightarrow>
          if length ingresses = 0 then Inr ([], None)
          else (case ingressesLoop_v1beta1 svc (getDefaultWeightedClusterForService svc)
                       ingresses [] of
                  Inl c \<Rightarrow> Inl c
                | Inr inboundIngressPolicies \<Rightarrow> Inr (inboundIngressPolicies, None)))"


subsection \<open>Extractor for networking/v1 (lines 242 to 343)\<close>

text \<open>The \<^verbatim>\<open>switch\<close> on the path type, lines 276 to 331.\<close>

definition pathTypeSwitch_v1 :: "HTTPIngressPath_v1 \<Rightarrow> condition + HTTPRouteMatch option" where
  "pathTypeSwitch_v1 ingressPath =
     (let pathType = (case PathType_v1 ingressPath of
                        None \<Rightarrow> PathTypeImplementationSpecific
                      | Some t \<Rightarrow> t)
      in if pathType = PathTypeExact then
           Inr (Some \<lparr>Path = Path_v1 ingressPath, PathMatchType = PathMatchExact,
                      Methods = [WildcardHTTPMethod]\<rparr>)
         else if pathType = PathTypePrefix then
           (if Path_v1 ingressPath = ''/'' then
              Inr (Some \<lparr>Path = Path_v1 ingressPath, PathMatchType = PathMatchPrefix,
                         Methods = [WildcardHTTPMethod]\<rparr>)
            else
              Inr (Some \<lparr>Path = TrimRight (Path_v1 ingressPath) ''/'' @ prefixMatchPathElementsRegex,
                         PathMatchType = PathMatchRegex, Methods = [WildcardHTTPMethod]\<rparr>))
         else if pathType = PathTypeImplementationSpecific then
           (if ContainsAny (Path_v1 ingressPath) commonRegexChars then
              Inr (Some \<lparr>Path = Path_v1 ingressPath, PathMatchType = PathMatchRegex,
                         Methods = [WildcardHTTPMethod]\<rparr>)
            else
              Inr (Some \<lparr>Path = Path_v1 ingressPath, PathMatchType = PathMatchPrefix,
                         Methods = [WildcardHTTPMethod]\<rparr>))
         else (case PathType_v1 ingressPath of
                 None \<Rightarrow> Inl (NilPointerDereference PathTypePointer)
               | Some t \<Rightarrow> Inr None))"

text \<open>
  The loop over the paths of one rule, lines 271 to 334. The comparison of line 272 reads
  \<^verbatim>\<open>ingressPath.Backend.Service.Name\<close> and panics when \<^verbatim>\<open>Service\<close> is nil.
\<close>

fun pathsLoop_v1 ::
    "MeshService \<Rightarrow> WeightedCluster \<Rightarrow> HTTPIngressPath_v1 list \<Rightarrow> InboundTrafficPolicy
       \<Rightarrow> condition + InboundTrafficPolicy" where
  "pathsLoop_v1 svc ingressWeightedCluster [] ingressPolicy = Inr ingressPolicy"
| "pathsLoop_v1 svc ingressWeightedCluster (ingressPath # rest) ingressPolicy =
     (case Service_v1 (Backend_v1 ingressPath) of
        None \<Rightarrow> Inl (NilPointerDereference BackendServicePointer)
      | Some service \<Rightarrow>
          if ServiceBackendName service \<noteq> Name svc then
            pathsLoop_v1 svc ingressWeightedCluster rest ingressPolicy
          else (case pathTypeSwitch_v1 ingressPath of
                  Inl c \<Rightarrow> Inl c
                | Inr None \<Rightarrow> pathsLoop_v1 svc ingressWeightedCluster rest ingressPolicy
                | Inr (Some httpRouteMatch) \<Rightarrow>
                    pathsLoop_v1 svc ingressWeightedCluster rest
                      (AddRule ingressPolicy
                         (NewRouteWeightedCluster httpRouteMatch [ingressWeightedCluster])
                         WildcardServiceIdentity)))"

text \<open>
  The loop over the rules of one ingress object, lines 264 to 340, with the same panic on a
  nil \<^verbatim>\<open>rule.HTTP\<close> as in version v1beta1.
\<close>

fun rulesLoop_v1 ::
    "MeshService \<Rightarrow> WeightedCluster \<Rightarrow> Ingress_v1 \<Rightarrow> IngressRule_v1 list
       \<Rightarrow> InboundTrafficPolicy list \<Rightarrow> condition + InboundTrafficPolicy list" where
  "rulesLoop_v1 svc ingressWeightedCluster ingress [] inboundIngressPolicies =
     Inr inboundIngressPolicies"
| "rulesLoop_v1 svc ingressWeightedCluster ingress (rule # rest) inboundIngressPolicies =
     (let domain = (if Host_v1 rule = [] then WildcardHTTPMethod else Host_v1 rule);
          ingressPolicy = NewInboundTrafficPolicy
            (getIngressTrafficPolicyName (metaName (ObjectMeta_v1 ingress))
               (metaNamespace (ObjectMeta_v1 ingress)) domain) [domain]
      in case HTTP_v1 rule of
           None \<Rightarrow> Inl (NilPointerDereference RuleHTTPPointer)
         | Some http \<Rightarrow>
             (case pathsLoop_v1 svc ingressWeightedCluster (Paths_v1 http) ingressPolicy of
                Inl c \<Rightarrow> Inl c
              | Inr ingressPolicy' \<Rightarrow>
                  if length (Rules ingressPolicy') > 0 then
                    (case MergeInboundPolicies DisallowPartialHostnamesMatch
                            inboundIngressPolicies ingressPolicy' of
                       Inl c \<Rightarrow> Inl c
                     | Inr merged \<Rightarrow>
                         rulesLoop_v1 svc ingressWeightedCluster ingress rest merged)
                  else rulesLoop_v1 svc ingressWeightedCluster ingress rest
                         inboundIngressPolicies))"

text \<open>
  The loop over the ingress objects, lines 257 to 341. The test of line 258 reads
  \<^verbatim>\<open>ingress.Spec.DefaultBackend.Service.Name\<close> once the default backend is not nil, and
  panics when its \<^verbatim>\<open>Service\<close> is nil.
\<close>

fun ingressesLoop_v1 ::
    "MeshService \<Rightarrow> WeightedCluster \<Rightarrow> Ingress_v1 list \<Rightarrow> InboundTrafficPolicy list
       \<Rightarrow> condition + InboundTrafficPolicy list" where
  "ingressesLoop_v1 svc ingressWeightedCluster [] inboundIngressPolicies =
     Inr inboundIngressPolicies"
| "ingressesLoop_v1 svc ingressWeightedCluster (ingress # rest) inboundIngressPolicies =
     (case (case SpecDefaultBackend_v1 (Spec_v1 ingress) of
              None \<Rightarrow> Inr inboundIngressPolicies
            | Some backend \<Rightarrow>
                (case Service_v1 backend of
                   None \<Rightarrow> Inl (NilPointerDereference BackendServicePointer)
                 | Some service \<Rightarrow>
                     if ServiceBackendName service = Name svc then
                       MergeInboundPolicies DisallowPartialHostnamesMatch inboundIngressPolicies
                         (wildcardIngressPolicy (ObjectMeta_v1 ingress) ingressWeightedCluster)
                     else Inr inboundIngressPolicies)) of
        Inl c \<Rightarrow> Inl c
      | Inr afterBackend \<Rightarrow>
          (case rulesLoop_v1 svc ingressWeightedCluster ingress
                  (SpecRules_v1 (Spec_v1 ingress)) afterBackend of
             Inl c \<Rightarrow> Inl c
           | Inr afterRules \<Rightarrow> ingressesLoop_v1 svc ingressWeightedCluster rest afterRules))"

definition getIngressPoliciesNetworkingV1 ::
    "MeshCatalog \<Rightarrow> MeshService \<Rightarrow> condition + (InboundTrafficPolicy list \<times> error option)" where
  "getIngressPoliciesNetworkingV1 mc svc =
     (case GetIngressNetworkingV1 mc svc of
        (ingresses, Some err) \<Rightarrow> Inr ([], Some err)
      | (ingresses, None) \<Rightarrow>
          if length ingresses = 0 then Inr ([], None)
          else (case ingressesLoop_v1 svc (getDefaultWeightedClusterForService svc)
                       ingresses [] of
                  Inl c \<Rightarrow> Inl c
                | Inr inboundIngressPolicies \<Rightarrow> Inr (inboundIngressPolicies, None)))"

subsection \<open>Fan-out over the schema versions (lines 112 to 130)\<close>

text \<open>
  An error of an extractor is logged and its policies are left out; the function itself
  returns a nil error. Version v1 is asked first.
\<close>

definition getIngressPoliciesFromK8s ::
    "MeshCatalog \<Rightarrow> MeshService \<Rightarrow> condition + (InboundTrafficPolicy list \<times> error option)" where
  "getIngressPoliciesFromK8s mc svc =
     (case getIngressPoliciesNetworkingV1 mc svc of
        Inl c \<Rightarrow> Inl c
      | Inr (v1Policies, err1) \<Rightarrow>
          (let inboundTrafficPolicies = (case err1 of Some e \<Rightarrow> [] | None \<Rightarrow> [] @ v1Policies)
           in case getIngressPoliciesNetworkingV1beta1 mc svc of
                Inl c \<Rightarrow> Inl c
              | Inr (v1beta1Policies, err2) \<Rightarrow>
                  Inr (case err2 of
                         Some e \<Rightarrow> inboundTrafficPolicies
                       | None \<Rightarrow> inboundTrafficPolicies @ v1beta1Policies, None)))"

subsection \<open>Traffic matches (lines 71 to 103)\<close>

text \<open>
  Modelled from the spec: the protocol names of package \<^verbatim>\<open>constants\<close> are not in the file.
  The spec: traffic match names follow \<^verbatim>\<open>ingress_<service>_<port>_<protocol>[_with_sni]\<close>,
  with \<^verbatim>\<open>http\<close> and \<^verbatim>\<open>https\<close> for the protocol.
\<close>

definition ProtocolHTTP :: string where
  "ProtocolHTTP = ''http''"

definition ProtocolHTTPS :: string where
  "ProtocolHTTPS = ''https''"

record IngressTrafficMatch =
  MatchName :: string
  Port :: nat
  Protocol :: string
  SkipClientCertValidation :: bool
  ServerNames :: "string list"

text \<open>The verb \<^verbatim>\<open>%d\<close> of \<^verbatim>\<open>fmt.Sprintf\<close> on a port number: its decimal digits.\<close>

fun decimal :: "nat \<Rightarrow> string" where
  "decimal n =
     (if n < 10 then [''0123456789'' ! n]
      else decimal (n div 10) @ [''0123456789'' ! (n mod 10)])"

declare decimal.simps [simp del]

text \<open>The body of the loop over the port map for one entry, lines 75 to 102.\<close>

definition portTrafficMatches ::
    "MeshService \<Rightarrow> bool \<Rightarrow> nat \<times> string \<Rightarrow> IngressTrafficMatch list" where
  "portTrafficMatches svc enableHTTPSIngress entry =
     (case entry of (port, appProtocol) \<Rightarrow>
        if appProtocol \<noteq> ProtocolHTTP then []
        else
          (let trafficMatch = \<lparr>MatchName = [], Port = port, Protocol = [],
                 SkipClientCertValidation = False, ServerNames = []\<rparr>
           in if enableHTTPSIngress then
                (let trafficMatch' = trafficMatch
                       \<lparr>MatchName := ''ingress_'' @ svcString svc @ ''_'' @ decimal port @ ''_''
                                        @ ProtocolHTTPS,
                        Protocol := ProtocolHTTPS,
                        SkipClientCertValidation := True\<rparr>;
                     trafficMatchWithSNI = trafficMatch'
                       \<lparr>MatchName := ''ingress_'' @ svcString svc @ ''_'' @ decimal port @ ''_''
                                        @ ProtocolHTTPS @ ''_with_sni'',
                        ServerNames := [ServerName svc]\<rparr>
                 in [trafficMatch', trafficMatchWithSNI])
              else
                [trafficMatch
                   \<lparr>MatchName := ''ingress_'' @ svcString svc @ ''_'' @ decimal port @ ''_''
                                    @ ProtocolHTTP,
                    Protocol := ProtocolHTTP\<rparr>]))"

fun trafficMatchesLoop ::
    "MeshService \<Rightarrow> bool \<Rightarrow> (nat \<times> string) list \<Rightarrow> IngressTrafficMatch list
       \<Rightarrow> IngressTrafficMatch list" where
  "trafficMatchesLoop svc enableHTTPSIngress [] trafficMatches = trafficMatches"
| "trafficMatchesLoop svc enableHTTPSIngress (entry # rest) trafficMatches =
     trafficMatchesLoop svc enableHTTPSIngress rest
       (trafficMatches @ portTrafficMatches svc enableHTTPSIngress entry)"

subsection \<open>Assembler (lines 36 to 109)\<close>

record IngressTrafficPolicy =
  TrafficMatches :: "IngressTrafficMatch list"
  HTTPRoutePolicies :: "InboundTrafficPolicy list"

definition getIngressTrafficPolicyFromK8s ::
    "MeshCatalog \<Rightarrow> MeshService \<Rightarrow> condition + (IngressTrafficPolicy option \<times> error option)" where
  "getIngressTrafficPolicyFromK8s mc svc =
     (case getIngressPoliciesFromK8s mc svc of
        Inl c \<Rightarrow> Inl c
      | Inr (httpRoutePolicies, Some err) \<Rightarrow>
          Inr (None, Some (Wrapf err ''Error retrieving ingress HTTP routing policies''))
      | Inr (httpRoutePolicies, None) \<Rightarrow>
          if httpRoutePolicies = [] then Inr (None, None)
          else (case GetTargetPortToProtocolMappingForService mc svc of
                  (protocolToPortMap, Some err) \<Rightarrow>
                    Inr (None, Some (Wrapf err ''Error retrieving port to protocol mapping''))
                | (protocolToPortMap, None) \<Rightarrow>
                    Inr (Some \<lparr>TrafficMatches =
                                 trafficMatchesLoop svc (UseHTTPSIngress mc) protocolToPortMap [],
                               HTTPRoutePolicies = httpRoutePolicies\<rparr>, None)))"

definition getIngressTrafficPolicy ::
    "MeshCatalog \<Rightarrow> MeshService \<Rightarrow> condition + (IngressTrafficPolicy option \<times> error option)" where
  "getIngressTrafficPolicy mc svc = Inr (None, None)"

definition GetIngressTrafficPolicy ::
    "MeshCatalog \<Rightarrow> MeshService \<Rightarrow> condition + (IngressTrafficPolicy option \<times> error option)" where
  "GetIngressTrafficPolicy mc svc =
     (if EnableIngressBackendPolicy mc then getIngressTrafficPolicy mc svc
      else getIngressTrafficPolicyFromK8s mc svc)"


subsection \<open>Auxiliary notions for the proofs\<close>

text \<open>A policy keyed by exactly one hostname, as every policy the extractors build is.\<close>

definition singleHost :: "InboundTrafficPolicy \<Rightarrow> bool" where
  "singleHost p = (length (Hostnames p) = 1)"

text \<open>
  Objects in which every pointer the extractors read without a test is set: in both
  versions \<^verbatim>\<open>rule.HTTP\<close> of each rule, and in version v1 also the \<^verbatim>\<open>Service\<close> of the
  default backend, when there is one, and of the backend of each path entry.
\<close>

definition pointersSet_v1beta1 :: "Ingress_v1beta1 \<Rightarrow> bool" where
  "pointersSet_v1beta1 ingress =
     list_all (\<lambda>rule. HTTP_v1beta1 rule \<noteq> None) (SpecRules_v1beta1 (Spec_v1beta1 ingress))"

definition servicesSet_v1 :: "HTTPIngressPath_v1 list \<Rightarrow> bool" where
  "servicesSet_v1 paths =
     list_all (\<lambda>ingressPath. Service_v1 (Backend_v1 ingressPath) \<noteq> None) paths"

definition pointersSet_v1 :: "Ingress_v1 \<Rightarrow> bool" where
  "pointersSet_v1 ingress =
     ((case SpecDefaultBackend_v1 (Spec_v1 ingress) of
         None \<Rightarrow> True
       | Some backend \<Rightarrow> Service_v1 backend \<noteq> None)
      \<and> list_all (\<lambda>rule. case HTTP_v1 rule of
                            None \<Rightarrow> False
                          | Some http \<Rightarrow> servicesSet_v1 (Paths_v1 http))
            (SpecRules_v1 (Spec_v1 ingress)))"

text \<open>
  A path type that is set to a tag outside \<open>Exact\<close>, \<open>Prefix\<close> and
  \<open>ImplementationSpecific\<close>, and an ingress object with the path entries of such a type
  taken out of every rule. In version v1 an entry whose backend has no service stays in:
  the loop stops at it before it looks at the path type. These are used to say what
  skipping a path entry leaves untouched.
\<close>

definition unknownPathType :: "PathType option \<Rightarrow> bool" where
  "unknownPathType pathType =
     (case pathType of
        None \<Rightarrow> False
      | Some t \<Rightarrow> t \<noteq> PathTypeExact \<and> t \<noteq> PathTypePrefix \<and> t \<noteq> PathTypeImplementationSpecific)"

definition skipped_v1 :: "HTTPIngressPath_v1 \<Rightarrow> bool" where
  "skipped_v1 ingressPath =
     (Service_v1 (Backend_v1 ingressPath) \<noteq> None \<and> unknownPathType (PathType_v1 ingressPath))"

definition withoutUnknownPaths_v1beta1 :: "Ingress_v1beta1 \<Rightarrow> Ingress_v1beta1" where
  "withoutUnknownPaths_v1beta1 ingress =
     ingress\<lparr>Spec_v1beta1 := (Spec_v1beta1 ingress)
       \<lparr>SpecRules_v1beta1 :=
          map (\<lambda>rule. rule\<lparr>HTTP_v1beta1 :=
                 map_option (\<lambda>http. http
                   \<lparr>Paths_v1beta1 :=
                      filter (\<lambda>ingressPath. \<not> unknownPathType (PathType_v1beta1 ingressPath))
                        (Paths_v1beta1 http)\<rparr>) (HTTP_v1beta1 rule)\<rparr>)
            (SpecRules_v1beta1 (Spec_v1beta1 ingress))\<rparr>\<rparr>"

definition withoutUnknownPaths_v1 :: "Ingress_v1 \<Rightarrow> Ingress_v1" where
  "withoutUnknownPaths_v1 ingress =
     ingress\<lparr>Spec_v1 := (Spec_v1 ingress)
       \<lparr>SpecRules_v1 :=
          map (\<lambda>rule. rule\<lparr>HTTP_v1 :=
                 map_option (\<lambda>http. http
                   \<lparr>Paths_v1 :=
                      filter (\<lambda>ingressPath. \<not> skipped_v1 ingressPath) (Paths_v1 http)\<rparr>)
                   (HTTP_v1 rule)\<rparr>)
            (SpecRules_v1 (Spec_v1 ingress))\<rparr>\<rparr>"

text \<open>
  When an object of version v1 and one of version v1beta1 are the same object: each field
  the extractors read has the same value in both, at the place each version keeps it. A
  backend that is a resource and not a service has no \<^verbatim>\<open>Service\<close> in version v1 and an
  empty \<^verbatim>\<open>ServiceName\<close> in version v1beta1.
\<close>

definition equivalentBackend :: "IngressBackend_v1 \<Rightarrow> IngressBackend_v1beta1 \<Rightarrow> bool" where
  "equivalentBackend b1 b =
     (case Service_v1 b1 of
        None \<Rightarrow> ServiceName b = []
      | Some service \<Rightarrow> ServiceBackendName service = ServiceName b)"

definition equivalentPath :: "HTTPIngressPath_v1 \<Rightarrow> HTTPIngressPath_v1beta1 \<Rightarrow> bool" where
  "equivalentPath p1 p =
     (Path_v1 p1 = Path_v1beta1 p \<and> PathType_v1 p1 = PathType_v1beta1 p
      \<and> equivalentBackend (Backend_v1 p1) (Backend_v1beta1 p))"

definition equivalentRule :: "IngressRule_v1 \<Rightarrow> IngressRule_v1beta1 \<Rightarrow> bool" where
  "equivalentRule r1 r =
     (Host_v1 r1 = Host_v1beta1 r
      \<and> rel_option (\<lambda>http1 http. list_all2 equivalentPath (Paths_v1 http1) (Paths_v1beta1 http))
            (HTTP_v1 r1) (HTTP_v1beta1 r))"

definition equivalentIngress :: "Ingress_v1 \<Rightarrow> Ingress_v1beta1 \<Rightarrow> bool" where
  "equivalentIngress i1 i =
     (ObjectMeta_v1 i1 = ObjectMeta_v1beta1 i
      \<and> rel_option equivalentBackend (SpecDefaultBackend_v1 (Spec_v1 i1))
            (SpecBackend_v1beta1 (Spec_v1beta1 i))
      \<and> list_all2 equivalentRule (SpecRules_v1 (Spec_v1 i1)) (SpecRules_v1beta1 (Spec_v1beta1 i)))"

subsection \<open>Sample inputs\<close>

text \<open>Concrete services, ingress objects and catalogs on which the theorems are run.\<close>

definition webService :: MeshService where
  "webService = \<lparr>Namespace = ''shop'', Name = ''web'', svcString = ''shop/web'',
                  ServerName = ''web.shop.svc.cluster.local''\<rparr>"

definition defaultBackendIngress_v1 :: Ingress_v1 where
  "defaultBackendIngress_v1 =
     \<lparr>ObjectMeta_v1 = \<lparr>metaName = ''front'', metaNamespace = ''shop''\<rparr>,
      Spec_v1 = \<lparr>SpecDefaultBackend_v1 = Some \<lparr>Service_v1 = Some \<lparr>ServiceBackendName = ''web''\<rparr>\<rparr>,
                 SpecRules_v1 = []\<rparr>\<rparr>"

definition defaultBackendIngress_v1beta1 :: Ingress_v1beta1 where
  "defaultBackendIngress_v1beta1 =
     \<lparr>ObjectMeta_v1beta1 = \<lparr>metaName = ''front'', metaNamespace = ''shop''\<rparr>,
      Spec_v1beta1 = \<lparr>SpecBackend_v1beta1 = Some \<lparr>ServiceName = ''web''\<rparr>,
                      SpecRules_v1beta1 = []\<rparr>\<rparr>"

definition failingCatalog :: MeshCatalog where
  "failingCatalog =
     \<lparr>GetIngressNetworkingV1 = (\<lambda>svc. ([], Some (ErrorString ''v1 unavailable''))),
      GetIngressNetworkingV1beta1 = (\<lambda>svc. ([], Some (ErrorString ''v1beta1 unavailable''))),
      GetTargetPortToProtocolMappingForService = (\<lambda>svc. ([(80, ''http'')], None)),
      UseHTTPSIngress = False,
      EnableIngressBackendPolicy = False\<rparr>"

definition noPortsCatalog :: MeshCatalog where
  "noPortsCatalog =
     \<lparr>GetIngressNetworkingV1 = (\<lambda>svc. ([defaultBackendIngress_v1], None)),
      GetIngressNetworkingV1beta1 = (\<lambda>svc. ([], Some (ErrorString ''v1beta1 unavailable''))),
      GetTargetPortToProtocolMappingForService = (\<lambda>svc. ([], Some (ErrorString ''no endpoints''))),
      UseHTTPSIngress = False,
      EnableIngressBackendPolicy = False\<rparr>"

definition emptyCatalog :: MeshCatalog where
  "emptyCatalog =
     \<lparr>GetIngressNetworkingV1 = (\<lambda>svc. ([], None)),
      GetIngressNetworkingV1beta1 = (\<lambda>svc. ([], None)),
      GetTargetPortToProtocolMappingForService = (\<lambda>svc. ([], Some (ErrorString ''no endpoints''))),
      UseHTTPSIngress = False,
      EnableIngressBackendPolicy = False\<rparr>"

definition servingCatalog :: MeshCatalog where
  "servingCatalog =
     \<lparr>GetIngressNetworkingV1 = (\<lambda>svc. ([], None)),
      GetIngressNetworkingV1beta1 = (\<lambda>svc. ([defaultBackendIngress_v1beta1], None)),
      GetTargetPortToProtocolMappingForService = (\<lambda>svc. ([(443, ''tcp''), (80, ''http'')], None)),
      UseHTTPSIngress = True,
      EnableIngressBackendPolicy = False\<rparr>"

definition cartPath_v1beta1 :: HTTPIngressPath_v1beta1 where
  "cartPath_v1beta1 = \<lparr>Path_v1beta1 = ''/cart'', PathType_v1beta1 = Some ''Exact'',
                        Backend_v1beta1 = \<lparr>ServiceName = ''web''\<rparr>\<rparr>"

definition oldPath_v1beta1 :: HTTPIngressPath_v1beta1 where
  "oldPath_v1beta1 = \<lparr>Path_v1beta1 = ''/old'', PathType_v1beta1 = Some ''Mixed'',
                       Backend_v1beta1 = \<lparr>ServiceName = ''web''\<rparr>\<rparr>"

definition imgPath_v1beta1 :: HTTPIngressPath_v1beta1 where
  "imgPath_v1beta1 = \<lparr>Path_v1beta1 = ''/img/'', PathType_v1beta1 = Some ''Prefix'',
                       Backend_v1beta1 = \<lparr>ServiceName = ''web''\<rparr>\<rparr>"

definition shopIngress_v1beta1 :: Ingress_v1beta1 where
  "shopIngress_v1beta1 =
     \<lparr>ObjectMeta_v1beta1 = \<lparr>metaName = ''front'', metaNamespace = ''shop''\<rparr>,
      Spec_v1beta1 =
        \<lparr>SpecBackend_v1beta1 = None,
         SpecRules_v1beta1 =
           [\<lparr>Host_v1beta1 = ''shop.example.com'',
             HTTP_v1beta1 = Some \<lparr>Paths_v1beta1 =
               [cartPath_v1beta1, oldPath_v1beta1, imgPath_v1beta1]\<rparr>\<rparr>]\<rparr>\<rparr>"

definition cartPath_v1 :: HTTPIngressPath_v1 where
  "cartPath_v1 = \<lparr>Path_v1 = ''/cart'', PathType_v1 = Some ''Exact'',
                   Backend_v1 = \<lparr>Service_v1 = Some \<lparr>ServiceBackendName = ''web''\<rparr>\<rparr>\<rparr>"

definition oldPath_v1 :: HTTPIngressPath_v1 where
  "oldPath_v1 = \<lparr>Path_v1 = ''/old'', PathType_v1 = Some ''Mixed'',
                  Backend_v1 = \<lparr>Service_v1 = Some \<lparr>ServiceBackendName = ''web''\<rparr>\<rparr>\<rparr>"

definition imgPath_v1 :: HTTPIngressPath_v1 where
  "imgPath_v1 = \<lparr>Path_v1 = ''/img/'', PathType_v1 = Some ''Prefix'',
                  Backend_v1 = \<lparr>Service_v1 = Some \<lparr>ServiceBackendName = ''web''\<rparr>\<rparr>\<rparr>"

definition shopIngress_v1 :: Ingress_v1 where
  "shopIngress_v1 =
     \<lparr>ObjectMeta_v1 = \<lparr>metaName = ''front'', metaNamespace = ''shop''\<rparr>,
      Spec_v1 =
        \<lparr>SpecDefaultBackend_v1 = None,
         SpecRules_v1 =
           [\<lparr>Host_v1 = ''shop.example.com'',
             HTTP_v1 = Some \<lparr>Paths_v1 = [cartPath_v1, oldPath_v1, imgPath_v1]\<rparr>\<rparr>]\<rparr>\<rparr>"

definition shopCatalog :: MeshCatalog where
  "shopCatalog =
     \<lparr>GetIngressNetworkingV1 = (\<lambda>svc. ([shopIngress_v1], None)),
      GetIngressNetworkingV1beta1 = (\<lambda>svc. ([shopIngress_v1beta1], None)),
      GetTargetPortToProtocolMappingForService = (\<lambda>svc. ([(80, ''http'')], None)),
      UseHTTPSIngress = False,
      EnableIngressBackendPolicy = False\<rparr>"

definition shopPolicy :: InboundTrafficPolicy where
  "shopPolicy =
     \<lparr>PolicyName = ''front.shop|shop.example.com'',
      Hostnames = [''shop.example.com''],
      Rules =
        [\<lparr>Route = \<lparr>HTTPRouteMatch = \<lparr>Path = ''/cart'', PathMatchType = PathMatchExact,
                                      Methods = [''*'']\<rparr>,
                    WeightedClusters = [\<lparr>ClusterName = ''shop/web'', Weight = 100\<rparr>]\<rparr>,
          AllowedServiceIdentities = [''*'']\<rparr>,
         \<lparr>Route = \<lparr>HTTPRouteMatch = \<lparr>Path = ''/img(/.*)?$'', PathMatchType = PathMatchRegex,
                                      Methods = [''*'']\<rparr>,
                    WeightedClusters = [\<lparr>ClusterName = ''shop/web'', Weight = 100\<rparr>]\<rparr>,
          AllowedServiceIdentities = [''*'']\<rparr>]\<rparr>"



text \<open>
  An ingress object with a path entry for the service and a path entry whose backend is
  a resource, in both versions, and a catalog whose monitor returns it.
\<close>

definition bucketPath_v1beta1 :: HTTPIngressPath_v1beta1 where
  "bucketPath_v1beta1 = \<lparr>Path_v1beta1 = ''/files'', PathType_v1beta1 = Some ''Prefix'',
                          Backend_v1beta1 = \<lparr>ServiceName = []\<rparr>\<rparr>"

definition bucketPath_v1 :: HTTPIngressPath_v1 where
  "bucketPath_v1 = \<lparr>Path_v1 = ''/files'', PathType_v1 = Some ''Prefix'',
                     Backend_v1 = \<lparr>Service_v1 = None\<rparr>\<rparr>"

definition bucketIngress_v1beta1 :: Ingress_v1beta1 where
  "bucketIngress_v1beta1 =
     \<lparr>ObjectMeta_v1beta1 = \<lparr>metaName = ''front'', metaNamespace = ''shop''\<rparr>,
      Spec_v1beta1 =
        \<lparr>SpecBackend_v1beta1 = None,
         SpecRules_v1beta1 =
           [\<lparr>Host_v1beta1 = ''shop.example.com'',
             HTTP_v1beta1 = Some \<lparr>Paths_v1beta1 =
               [cartPath_v1beta1, bucketPath_v1beta1, imgPath_v1beta1]\<rparr>\<rparr>]\<rparr>\<rparr>"

definition bucketIngress_v1 :: Ingress_v1 where
  "bucketIngress_v1 =
     \<lparr>ObjectMeta_v1 = \<lparr>metaName = ''front'', metaNamespace = ''shop''\<rparr>,
      Spec_v1 =
        \<lparr>SpecDefaultBackend_v1 = None,
         SpecRules_v1 =
           [\<lparr>Host_v1 = ''shop.example.com'',
             HTTP_v1 = Some \<lparr>Paths_v1 = [cartPath_v1, bucketPath_v1, imgPath_v1]\<rparr>\<rparr>]\<rparr>\<rparr>"

definition bucketCatalog :: MeshCatalog where
  "bucketCatalog =
     \<lparr>GetIngressNetworkingV1 = (\<lambda>svc. ([bucketIngress_v1], None)),
      GetIngressNetworkingV1beta1 = (\<lambda>svc. ([bucketIngress_v1beta1], None)),
      GetTargetPortToProtocolMappingForService = (\<lambda>svc. ([(80, ''http'')], None)),
      UseHTTPSIngress = False,
      EnableIngressBackendPolicy = False\<rparr>"

section \<open>Properties\<close>

subsection \<open>Trimming and character tests\<close>

lemma TrimRight_snoc_cut: "c \<in> set cutset \<Longrightarrow> TrimRight (s @ [c]) cutset = TrimRight s cutset"
  by (simp add: TrimRight_def)

lemma TrimRight_decompose:
  "\<exists>n. s = TrimRight s [c] @ replicate n c"
proof (induction s rule: rev_induct)
  case Nil
  show ?case by (simp add: TrimRight_def)
next
  case (snoc x xs)
  show ?case
  proof (cases "x = c")
    case True
    from snoc obtain n where n: "xs = TrimRight xs [c] @ replicate n c" by blast
    have t: "TrimRight (xs @ [x]) [c] = TrimRight xs [c]"
      using True by (simp add: TrimRight_def)
    have "replicate (Suc n) c = replicate n c @ [c]"
      by (simp add: replicate_append_same)
    then have "xs @ [x] = TrimRight (xs @ [x]) [c] @ replicate (Suc n) c"
      using n t True by (metis append_assoc)
    then show ?thesis by blast
  next
    case False
    then have "xs @ [x] = TrimRight (xs @ [x]) [c] @ replicate 0 c"
      by (simp add: TrimRight_def)
    then show ?thesis by blast
  qed
qed

lemma TrimRight_last: "TrimRight s [c] \<noteq> [] \<Longrightarrow> last (TrimRight s [c]) \<noteq> c"
proof (induction s rule: rev_induct)
  case Nil
  then show ?case by (simp add: TrimRight_def)
next
  case (snoc x xs)
  then show ?case by (cases "x = c") (simp_all add: TrimRight_def)
qed

lemma ContainsAny_iff: "ContainsAny s chars \<longleftrightarrow> (\<exists>c \<in> set s. c \<in> set chars)"
  by (simp add: ContainsAny_def list_ex_iff)

lemma pathTypeSwitch_v1beta1_Prefix:
  "PathType_v1beta1 ip = Some PathTypePrefix \<Longrightarrow>
   pathTypeSwitch_v1beta1 ip =
     (if Path_v1beta1 ip = ''/'' then
        Inr (Some \<lparr>Path = ''/'', PathMatchType = PathMatchPrefix, Methods = [WildcardHTTPMethod]\<rparr>)
      else Inr (Some \<lparr>Path = TrimRight (Path_v1beta1 ip) ''/'' @ ''(/.*)?$'',
                       PathMatchType = PathMatchRegex, Methods = [WildcardHTTPMethod]\<rparr>))"
  by (simp add: pathTypeSwitch_v1beta1_def PathTypePrefix_def PathTypeExact_def
      prefixMatchPathElementsRegex_def)

lemma pathTypeSwitch_v1_Prefix:
  "PathType_v1 ip = Some PathTypePrefix \<Longrightarrow>
   pathTypeSwitch_v1 ip =
     (if Path_v1 ip = ''/'' then
        Inr (Some \<lparr>Path = ''/'', PathMatchType = PathMatchPrefix, Methods = [WildcardHTTPMethod]\<rparr>)
      else Inr (Some \<lparr>Path = TrimRight (Path_v1 ip) ''/'' @ ''(/.*)?$'',
                       PathMatchType = PathMatchRegex, Methods = [WildcardHTTPMethod]\<rparr>))"
  by (simp add: pathTypeSwitch_v1_def PathTypePrefix_def PathTypeExact_def
      prefixMatchPathElementsRegex_def)

subsection \<open>The path type switch and the panics of the extractors\<close>

lemma pathTypeSwitch_v1beta1_ImplementationSpecific:
  "PathType_v1beta1 ip = None \<or> PathType_v1beta1 ip = Some PathTypeImplementationSpecific \<Longrightarrow>
   pathTypeSwitch_v1beta1 ip =
     Inr (Some \<lparr>Path = Path_v1beta1 ip,
                PathMatchType = (if ContainsAny (Path_v1beta1 ip) commonRegexChars
                                 then PathMatchRegex else PathMatchPrefix),
                Methods = [WildcardHTTPMethod]\<rparr>)"
  by (auto simp add: pathTypeSwitch_v1beta1_def PathTypePrefix_def PathTypeExact_def
      PathTypeImplementationSpecific_def)

lemma pathTypeSwitch_v1_ImplementationSpecific:
  "PathType_v1 ip = None \<or> PathType_v1 ip = Some PathTypeImplementationSpecific \<Longrightarrow>
   pathTypeSwitch_v1 ip =
     Inr (Some \<lparr>Path = Path_v1 ip,
                PathMatchType = (if ContainsAny (Path_v1 ip) commonRegexChars
                                 then PathMatchRegex else PathMatchPrefix),
                Methods = [WildcardHTTPMethod]\<rparr>)"
  by (auto simp add: pathTypeSwitch_v1_def PathTypePrefix_def PathTypeExact_def
      PathTypeImplementationSpecific_def)

lemma commonRegexChars_set:
  "set commonRegexChars =
     {CHR ''^'', CHR ''$'', CHR ''*'', CHR ''+'', CHR ''['', CHR '']'', CHR ''%'', CHR ''|''}"
  by (simp add: commonRegexChars_def)

lemma pathTypeSwitch_v1beta1_no_panic: "pathTypeSwitch_v1beta1 ip \<noteq> Inl c"
  by (cases "PathType_v1beta1 ip")
     (simp_all add: pathTypeSwitch_v1beta1_def PathTypePrefix_def PathTypeExact_def
      PathTypeImplementationSpecific_def Let_def)

lemma pathTypeSwitch_v1_no_panic: "pathTypeSwitch_v1 ip \<noteq> Inl c"
  by (cases "PathType_v1 ip")
     (simp_all add: pathTypeSwitch_v1_def PathTypePrefix_def PathTypeExact_def
      PathTypeImplementationSpecific_def Let_def)

lemma pathsLoop_v1beta1_no_panic: "pathsLoop_v1beta1 svc wc paths pol \<noteq> Inl c"
proof (induction paths arbitrary: pol)
  case Nil
  show ?case by simp
next
  case (Cons ip rest)
  show ?case
  proof (cases "pathTypeSwitch_v1beta1 ip")
    case (Inl c')
    then show ?thesis using pathTypeSwitch_v1beta1_no_panic by blast
  next
    case (Inr r)
    then show ?thesis using Cons.IH by (cases r) simp_all
  qed
qed

lemma pathsLoop_v1_Inl:
  "pathsLoop_v1 svc wc paths pol = Inl c \<Longrightarrow> c = NilPointerDereference BackendServicePointer"
proof (induction paths arbitrary: pol)
  case Nil
  then show ?case by simp
next
  case (Cons ip rest)
  show ?case
  proof (cases "Service_v1 (Backend_v1 ip)")
    case None
    with Cons.prems show ?thesis by simp
  next
    case (Some service)
    show ?thesis
    proof (cases "pathTypeSwitch_v1 ip")
      case (Inl c')
      then show ?thesis using pathTypeSwitch_v1_no_panic by blast
    next
      case (Inr r)
      with Some Cons show ?thesis by (cases r) (auto split: if_splits)
    qed
  qed
qed

lemma pathsLoop_v1_no_panic:
  "servicesSet_v1 paths \<Longrightarrow> pathsLoop_v1 svc wc paths pol \<noteq> Inl c"
proof (induction paths arbitrary: pol)
  case Nil
  show ?case by simp
next
  case (Cons ip rest)
  from Cons.prems obtain service where service: "Service_v1 (Backend_v1 ip) = Some service"
    and rest: "servicesSet_v1 rest"
    by (auto simp add: servicesSet_v1_def)
  show ?case
  proof (cases "pathTypeSwitch_v1 ip")
    case (Inl c')
    then show ?thesis using pathTypeSwitch_v1_no_panic by blast
  next
    case (Inr r)
    then show ?thesis using Cons.IH [OF rest] service by (cases r) simp_all
  qed
qed

lemma MergeInboundPolicies_Inl:
  "MergeInboundPolicies s original latest = Inl c \<Longrightarrow> c = AmbiguousHostnameOverlap"
  by (auto simp add: MergeInboundPolicies_def split: if_splits)

lemma rulesLoop_v1beta1_Inl:
  "rulesLoop_v1beta1 svc wc ingress rules acc = Inl c \<Longrightarrow>
   c \<noteq> NilPointerDereference PathTypePointer"
proof (induction rules arbitrary: acc)
  case Nil
  then show ?case by simp
next
  case (Cons rule rest)
  then show ?case
    by (auto simp add: Let_def pathsLoop_v1beta1_no_panic
        split: sum.splits if_splits option.splits dest: MergeInboundPolicies_Inl)
qed

lemma rulesLoop_v1_Inl:
  "rulesLoop_v1 svc wc ingress rules acc = Inl c \<Longrightarrow>
   c \<noteq> NilPointerDereference PathTypePointer"
proof (induction rules arbitrary: acc)
  case Nil
  then show ?case by simp
next
  case (Cons rule rest)
  then show ?case
    by (auto simp add: Let_def
        split: sum.splits if_splits option.splits
        dest: MergeInboundPolicies_Inl pathsLoop_v1_Inl)
qed

lemma ingressesLoop_v1beta1_Inl:
  "ingressesLoop_v1beta1 svc wc ingresses acc = Inl c \<Longrightarrow>
   c \<noteq> NilPointerDereference PathTypePointer"
proof (induction ingresses arbitrary: acc)
  case Nil
  then show ?case by simp
next
  case (Cons ingress rest)
  then show ?case
    by (auto split: sum.splits option.splits if_splits
        dest: MergeInboundPolicies_Inl rulesLoop_v1beta1_Inl)
qed

lemma ingressesLoop_v1_Inl:
  "ingressesLoop_v1 svc wc ingresses acc = Inl c \<Longrightarrow>
   c \<noteq> NilPointerDereference PathTypePointer"
proof (induction ingresses arbitrary: acc)
  case Nil
  then show ?case by simp
next
  case (Cons ingress rest)
  then show ?case
    by (auto split: sum.splits option.splits if_splits
        dest: MergeInboundPolicies_Inl rulesLoop_v1_Inl)
qed

lemma getIngressPoliciesNetworkingV1beta1_Inl:
  "getIngressPoliciesNetworkingV1beta1 mc svc = Inl c \<Longrightarrow>
   c \<noteq> NilPointerDereference PathTypePointer"
  by (auto simp add: getIngressPoliciesNetworkingV1beta1_def
      split: prod.splits option.splits sum.splits if_splits dest: ingressesLoop_v1beta1_Inl)

lemma getIngressPoliciesNetworkingV1_Inl:
  "getIngressPoliciesNetworkingV1 mc svc = Inl c \<Longrightarrow>
   c \<noteq> NilPointerDereference PathTypePointer"
  by (auto simp add: getIngressPoliciesNetworkingV1_def
      split: prod.splits option.splits sum.splits if_splits dest: ingressesLoop_v1_Inl)

subsection \<open>Prefix paths\<close>

text \<open>
  Claim C1, as amended. For a path entry of type \<open>Prefix\<close>, in both schema versions: the
  path \<open>/\<close> gives the pattern \<open>/\<close> with kind Prefix; every other path gives the path
  without its trailing \<open>/\<close> characters, followed by \<open>(/.*)?$\<close>, with kind Regex. The
  trimmed path is the path minus a run of \<open>/\<close> at its end and does not itself end in
  \<open>/\<close>. For every path \<open>p\<close> other than \<open>/\<close> and the empty path, \<open>p\<close> followed by \<open>/\<close>
  translates to the same route match as \<open>p\<close>.
\<close>

theorem prefix_path_translation:
  assumes "PathType_v1beta1 ib = Some PathTypePrefix" and "PathType_v1 i1 = Some PathTypePrefix"
  shows "pathTypeSwitch_v1beta1 ib =
           (if Path_v1beta1 ib = ''/'' then
              Inr (Some \<lparr>Path = ''/'', PathMatchType = PathMatchPrefix,
                         Methods = [WildcardHTTPMethod]\<rparr>)
            else Inr (Some \<lparr>Path = TrimRight (Path_v1beta1 ib) ''/'' @ ''(/.*)?$'',
                             PathMatchType = PathMatchRegex, Methods = [WildcardHTTPMethod]\<rparr>))
       \<and> pathTypeSwitch_v1 i1 =
           (if Path_v1 i1 = ''/'' then
              Inr (Some \<lparr>Path = ''/'', PathMatchType = PathMatchPrefix,
                         Methods = [WildcardHTTPMethod]\<rparr>)
            else Inr (Some \<lparr>Path = TrimRight (Path_v1 i1) ''/'' @ ''(/.*)?$'',
                             PathMatchType = PathMatchRegex, Methods = [WildcardHTTPMethod]\<rparr>))
       \<and> (\<exists>n. p = TrimRight p ''/'' @ replicate n (CHR ''/''))
       \<and> (TrimRight p ''/'' = [] \<or> last (TrimRight p ''/'') \<noteq> CHR ''/'')
       \<and> (p \<noteq> [] \<and> p \<noteq> ''/'' \<longrightarrow>
            pathTypeSwitch_v1beta1 (ib\<lparr>Path_v1beta1 := p @ ''/''\<rparr>)
              = pathTypeSwitch_v1beta1 (ib\<lparr>Path_v1beta1 := p\<rparr>)
          \<and> pathTypeSwitch_v1 (i1\<lparr>Path_v1 := p @ ''/''\<rparr>)
              = pathTypeSwitch_v1 (i1\<lparr>Path_v1 := p\<rparr>))"
proof -
  have sw_b: "pathTypeSwitch_v1beta1 ib =
           (if Path_v1beta1 ib = ''/'' then
              Inr (Some \<lparr>Path = ''/'', PathMatchType = PathMatchPrefix,
                         Methods = [WildcardHTTPMethod]\<rparr>)
            else Inr (Some \<lparr>Path = TrimRight (Path_v1beta1 ib) ''/'' @ ''(/.*)?$'',
                             PathMatchType = PathMatchRegex, Methods = [WildcardHTTPMethod]\<rparr>))"
    using assms(1) by (rule pathTypeSwitch_v1beta1_Prefix)
  have sw_1: "pathTypeSwitch_v1 i1 =
           (if Path_v1 i1 = ''/'' then
              Inr (Some \<lparr>Path = ''/'', PathMatchType = PathMatchPrefix,
                         Methods = [WildcardHTTPMethod]\<rparr>)
            else Inr (Some \<lparr>Path = TrimRight (Path_v1 i1) ''/'' @ ''(/.*)?$'',
                             PathMatchType = PathMatchRegex, Methods = [WildcardHTTPMethod]\<rparr>))"
    using assms(2) by (rule pathTypeSwitch_v1_Prefix)
  have dec: "\<exists>n. p = TrimRight p ''/'' @ replicate n (CHR ''/'')"
    by (rule TrimRight_decompose)
  have lst: "TrimRight p ''/'' = [] \<or> last (TrimRight p ''/'') \<noteq> CHR ''/''"
    using TrimRight_last [of p "CHR ''/''"] by blast
  have idem: "pathTypeSwitch_v1beta1 (ib\<lparr>Path_v1beta1 := p @ ''/''\<rparr>)
              = pathTypeSwitch_v1beta1 (ib\<lparr>Path_v1beta1 := p\<rparr>)
          \<and> pathTypeSwitch_v1 (i1\<lparr>Path_v1 := p @ ''/''\<rparr>)
              = pathTypeSwitch_v1 (i1\<lparr>Path_v1 := p\<rparr>)"
    if "p \<noteq> []" "p \<noteq> ''/''"
  proof -
    have t: "TrimRight (p @ ''/'') ''/'' = TrimRight p ''/''"
      by (simp add: TrimRight_snoc_cut)
    have ne: "p @ ''/'' \<noteq> ''/''"
      using that(1) by simp
    have b: "PathType_v1beta1 (ib\<lparr>Path_v1beta1 := q\<rparr>) = Some PathTypePrefix" for q
      using assms(1) by simp
    have v: "PathType_v1 (i1\<lparr>Path_v1 := q\<rparr>) = Some PathTypePrefix" for q
      using assms(2) by simp
    show ?thesis
      using that(2) ne t
      by (simp add: pathTypeSwitch_v1beta1_Prefix [OF b] pathTypeSwitch_v1_Prefix [OF v])
  qed
  show ?thesis
    using sw_b sw_1 dec lst idem by blast
qed

theorem prefix_path_translation_witness:
  "pathTypeSwitch_v1beta1
     \<lparr>Path_v1beta1 = ''/foo//'', PathType_v1beta1 = Some ''Prefix'',
      Backend_v1beta1 = \<lparr>ServiceName = ''web''\<rparr>\<rparr>
     = Inr (Some \<lparr>Path = ''/foo(/.*)?$'', PathMatchType = PathMatchRegex, Methods = [''*'']\<rparr>)
   \<and> pathTypeSwitch_v1
       \<lparr>Path_v1 = ''/'', PathType_v1 = Some ''Prefix'',
        Backend_v1 = \<lparr>Service_v1 = Some \<lparr>ServiceBackendName = ''web''\<rparr>\<rparr>\<rparr>
     = Inr (Some \<lparr>Path = ''/'', PathMatchType = PathMatchPrefix, Methods = [''*'']\<rparr>)
   \<and> pathTypeSwitch_v1beta1
       \<lparr>Path_v1beta1 = ''/foo/'', PathType_v1beta1 = Some ''Prefix'',
        Backend_v1beta1 = \<lparr>ServiceName = ''web''\<rparr>\<rparr>
     = pathTypeSwitch_v1beta1
       \<lparr>Path_v1beta1 = ''/foo'', PathType_v1beta1 = Some ''Prefix'',
        Backend_v1beta1 = \<lparr>ServiceName = ''web''\<rparr>\<rparr>"
  using prefix_path_translation
    [of "\<lparr>Path_v1beta1 = ''/foo//'', PathType_v1beta1 = Some ''Prefix'',
          Backend_v1beta1 = \<lparr>ServiceName = ''web''\<rparr>\<rparr>"
        "\<lparr>Path_v1 = ''/'', PathType_v1 = Some ''Prefix'',
          Backend_v1 = \<lparr>Service_v1 = Some \<lparr>ServiceBackendName = ''web''\<rparr>\<rparr>\<rparr>"
        "''/foo''"]
  by (simp add: PathTypePrefix_def WildcardHTTPMethod_def TrimRight_def)

theorem prefix_trailing_slash_counterexample:
  "([] :: string) \<noteq> ''/''
   \<and> pathTypeSwitch_v1beta1
       \<lparr>Path_v1beta1 = [] @ ''/'', PathType_v1beta1 = Some PathTypePrefix,
        Backend_v1beta1 = \<lparr>ServiceName = ''web''\<rparr>\<rparr>
     = Inr (Some \<lparr>Path = ''/'', PathMatchType = PathMatchPrefix, Methods = [''*'']\<rparr>)
   \<and> pathTypeSwitch_v1beta1
       \<lparr>Path_v1beta1 = [], PathType_v1beta1 = Some PathTypePrefix,
        Backend_v1beta1 = \<lparr>ServiceName = ''web''\<rparr>\<rparr>
     = Inr (Some \<lparr>Path = ''(/.*)?$'', PathMatchType = PathMatchRegex, Methods = [''*'']\<rparr>)
   \<and> pathTypeSwitch_v1
       \<lparr>Path_v1 = [] @ ''/'', PathType_v1 = Some PathTypePrefix,
        Backend_v1 = \<lparr>Service_v1 = Some \<lparr>ServiceBackendName = ''web''\<rparr>\<rparr>\<rparr>
     \<noteq> pathTypeSwitch_v1
       \<lparr>Path_v1 = [], PathType_v1 = Some PathTypePrefix,
        Backend_v1 = \<lparr>Service_v1 = Some \<lparr>ServiceBackendName = ''web''\<rparr>\<rparr>\<rparr>"
  by (simp add: pathTypeSwitch_v1beta1_def pathTypeSwitch_v1_def PathTypePrefix_def
      PathTypeExact_def WildcardHTTPMethod_def TrimRight_def prefixMatchPathElementsRegex_def)

subsection \<open>Implementation-specific paths and unset path types\<close>

text \<open>
  Claim C4. For a path entry whose path type is \<open>ImplementationSpecific\<close> or unset, in
  both schema versions, the route match carries the path unchanged; its kind is Regex when
  the path contains one of the characters \<open>^ $ * + [ ] % |\<close>, and Prefix otherwise.
\<close>

theorem implementation_specific_translation:
  assumes "PathType_v1beta1 ib = None \<or> PathType_v1beta1 ib = Some PathTypeImplementationSpecific"
    and "PathType_v1 i1 = None \<or> PathType_v1 i1 = Some PathTypeImplementationSpecific"
  shows "pathTypeSwitch_v1beta1 ib =
           Inr (Some \<lparr>Path = Path_v1beta1 ib,
                      PathMatchType =
                        (if \<exists>c \<in> set (Path_v1beta1 ib).
                              c \<in> {CHR ''^'', CHR ''$'', CHR ''*'', CHR ''+'', CHR ''['', CHR '']'',
                                   CHR ''%'', CHR ''|''}
                         then PathMatchRegex else PathMatchPrefix),
                      Methods = [WildcardHTTPMethod]\<rparr>)
       \<and> pathTypeSwitch_v1 i1 =
           Inr (Some \<lparr>Path = Path_v1 i1,
                      PathMatchType =
                        (if \<exists>c \<in> set (Path_v1 i1).
                              c \<in> {CHR ''^'', CHR ''$'', CHR ''*'', CHR ''+'', CHR ''['', CHR '']'',
                                   CHR ''%'', CHR ''|''}
                         then PathMatchRegex else PathMatchPrefix),
                      Methods = [WildcardHTTPMethod]\<rparr>)"
proof -
  have any: "ContainsAny s commonRegexChars \<longleftrightarrow>
               (\<exists>c \<in> set s. c \<in> {CHR ''^'', CHR ''$'', CHR ''*'', CHR ''+'', CHR ''['', CHR '']'',
                                  CHR ''%'', CHR ''|''})" for s
    unfolding ContainsAny_iff commonRegexChars_set ..
  show ?thesis
    unfolding pathTypeSwitch_v1beta1_ImplementationSpecific [OF assms(1)]
      pathTypeSwitch_v1_ImplementationSpecific [OF assms(2)] any
    by simp
qed

theorem implementation_specific_translation_witness:
  "pathTypeSwitch_v1beta1
     \<lparr>Path_v1beta1 = ''/foo.*'', PathType_v1beta1 = None,
      Backend_v1beta1 = \<lparr>ServiceName = ''web''\<rparr>\<rparr>
     = Inr (Some \<lparr>Path = ''/foo.*'', PathMatchType = PathMatchRegex, Methods = [''*'']\<rparr>)
   \<and> pathTypeSwitch_v1
       \<lparr>Path_v1 = ''/foo'', PathType_v1 = Some ''ImplementationSpecific'',
        Backend_v1 = \<lparr>Service_v1 = Some \<lparr>ServiceBackendName = ''web''\<rparr>\<rparr>\<rparr>
     = Inr (Some \<lparr>Path = ''/foo'', PathMatchType = PathMatchPrefix, Methods = [''*'']\<rparr>)"
  using implementation_specific_translation
    [of "\<lparr>Path_v1beta1 = ''/foo.*'', PathType_v1beta1 = None,
          Backend_v1beta1 = \<lparr>ServiceName = ''web''\<rparr>\<rparr>"
        "\<lparr>Path_v1 = ''/foo'', PathType_v1 = Some ''ImplementationSpecific'',
          Backend_v1 = \<lparr>Service_v1 = Some \<lparr>ServiceBackendName = ''web''\<rparr>\<rparr>\<rparr>"]
  by (simp add: PathTypeImplementationSpecific_def WildcardHTTPMethod_def)

text \<open>
  Claim C10. A path entry whose path type is unset never reaches the default branch of
  the \<^verbatim>\<open>switch\<close>: it yields a route match. The default branch is reached only with a path
  type that is set, so the dereference in its log statement never meets a nil pointer, in
  the \<^verbatim>\<open>switch\<close> and in the whole of either extractor: no extractor ends in the
  dereference of a nil path type.
\<close>

theorem unset_path_type_never_dereferenced:
  "(\<exists>m. pathTypeSwitch_v1beta1 (ib\<lparr>PathType_v1beta1 := None\<rparr>) = Inr (Some m))
   \<and> (\<exists>m. pathTypeSwitch_v1 (i1\<lparr>PathType_v1 := None\<rparr>) = Inr (Some m))
   \<and> (pathTypeSwitch_v1beta1 ib = Inr None \<longrightarrow> PathType_v1beta1 ib \<noteq> None)
   \<and> (pathTypeSwitch_v1 i1 = Inr None \<longrightarrow> PathType_v1 i1 \<noteq> None)
   \<and> pathTypeSwitch_v1beta1 ib \<noteq> Inl (NilPointerDereference PathTypePointer)
   \<and> pathTypeSwitch_v1 i1 \<noteq> Inl (NilPointerDereference PathTypePointer)
   \<and> getIngressPoliciesNetworkingV1beta1 mc svc \<noteq> Inl (NilPointerDereference PathTypePointer)
   \<and> getIngressPoliciesNetworkingV1 mc svc \<noteq> Inl (NilPointerDereference PathTypePointer)"
proof -
  have a: "\<exists>m. pathTypeSwitch_v1beta1 (ib\<lparr>PathType_v1beta1 := None\<rparr>) = Inr (Some m)"
    by (simp add: pathTypeSwitch_v1beta1_ImplementationSpecific)
  have b: "\<exists>m. pathTypeSwitch_v1 (i1\<lparr>PathType_v1 := None\<rparr>) = Inr (Some m)"
    by (simp add: pathTypeSwitch_v1_ImplementationSpecific)
  have c: "PathType_v1beta1 ib \<noteq> None" if "pathTypeSwitch_v1beta1 ib = Inr None"
  proof
    assume "PathType_v1beta1 ib = None"
    then have "pathTypeSwitch_v1beta1 ib \<noteq> Inr None"
      by (simp add: pathTypeSwitch_v1beta1_ImplementationSpecific)
    with that show False by simp
  qed
  have d: "PathType_v1 i1 \<noteq> None" if "pathTypeSwitch_v1 i1 = Inr None"
  proof
    assume "PathType_v1 i1 = None"
    then have "pathTypeSwitch_v1 i1 \<noteq> Inr None"
      by (simp add: pathTypeSwitch_v1_ImplementationSpecific)
    with that show False by simp
  qed
  have e: "getIngressPoliciesNetworkingV1beta1 mc svc \<noteq> Inl (NilPointerDereference PathTypePointer)"
    using getIngressPoliciesNetworkingV1beta1_Inl [of mc svc "NilPointerDereference PathTypePointer"] by auto
  have f: "getIngressPoliciesNetworkingV1 mc svc \<noteq> Inl (NilPointerDereference PathTypePointer)"
    using getIngressPoliciesNetworkingV1_Inl [of mc svc "NilPointerDereference PathTypePointer"] by auto
  show ?thesis
    using a b c d e f pathTypeSwitch_v1beta1_no_panic pathTypeSwitch_v1_no_panic by blast
qed

theorem unset_path_type_never_dereferenced_witness:
  "pathTypeSwitch_v1beta1
     \<lparr>Path_v1beta1 = ''/foo'', PathType_v1beta1 = Some ''Mixed'',
      Backend_v1beta1 = \<lparr>ServiceName = ''web''\<rparr>\<rparr> = Inr None
   \<and> pathTypeSwitch_v1
       \<lparr>Path_v1 = ''/foo'', PathType_v1 = Some ''Mixed'',
        Backend_v1 = \<lparr>Service_v1 = Some \<lparr>ServiceBackendName = ''web''\<rparr>\<rparr>\<rparr> = Inr None
   \<and> PathType_v1beta1
       \<lparr>Path_v1beta1 = ''/foo'', PathType_v1beta1 = Some ''Mixed'',
        Backend_v1beta1 = \<lparr>ServiceName = ''web''\<rparr>\<rparr> \<noteq> None"
  using unset_path_type_never_dereferenced
    [of "\<lparr>Path_v1beta1 = ''/foo'', PathType_v1beta1 = Some ''Mixed'',
          Backend_v1beta1 = \<lparr>ServiceName = ''web''\<rparr>\<rparr>"
        "\<lparr>Path_v1 = ''/foo'', PathType_v1 = Some ''Mixed'',
          Backend_v1 = \<lparr>Service_v1 = Some \<lparr>ServiceBackendName = ''web''\<rparr>\<rparr>\<rparr>"]
  by (simp add: pathTypeSwitch_v1beta1_def pathTypeSwitch_v1_def PathTypePrefix_def
      PathTypeExact_def PathTypeImplementationSpecific_def)

subsection \<open>Traffic matches\<close>

lemma decimal_80: "decimal 80 = ''80''"
  by (simp add: decimal.simps [of 80] decimal.simps [of 8])

lemma portTrafficMatches_not_http:
  "appProtocol \<noteq> ProtocolHTTP \<Longrightarrow> portTrafficMatches svc enableHTTPSIngress (port, appProtocol) = []"
  by (simp add: portTrafficMatches_def)

lemma portTrafficMatches_http:
  "portTrafficMatches svc False (port, ProtocolHTTP) =
     [\<lparr>MatchName = ''ingress_'' @ svcString svc @ ''_'' @ decimal port @ ''_http'',
       Port = port, Protocol = ''http'', SkipClientCertValidation = False, ServerNames = []\<rparr>]"
  by (simp add: portTrafficMatches_def ProtocolHTTP_def)

lemma portTrafficMatches_https:
  "portTrafficMatches svc True (port, ProtocolHTTP) =
     [\<lparr>MatchName = ''ingress_'' @ svcString svc @ ''_'' @ decimal port @ ''_https'',
       Port = port, Protocol = ''https'', SkipClientCertValidation = True, ServerNames = []\<rparr>,
      \<lparr>MatchName = ''ingress_'' @ svcString svc @ ''_'' @ decimal port @ ''_https_with_sni'',
       Port = port, Protocol = ''https'', SkipClientCertValidation = True,
       ServerNames = [ServerName svc]\<rparr>]"
  by (simp add: portTrafficMatches_def ProtocolHTTP_def ProtocolHTTPS_def)

lemma trafficMatchesLoop_concat:
  "trafficMatchesLoop svc enableHTTPSIngress entries trafficMatches =
     trafficMatches @ concat (map (portTrafficMatches svc enableHTTPSIngress) entries)"
  by (induction entries arbitrary: trafficMatches) simp_all

subsection \<open>When the extractors return\<close>

lemma singleHost_no_partialOverlap:
  "singleHost p \<Longrightarrow> singleHost q \<Longrightarrow> \<not> partialOverlap p q"
  by (cases "Hostnames p"; cases "Hostnames q")
     (auto simp add: singleHost_def partialOverlap_def sameHostnames_def disjointHostnames_def)

lemma appendRules_singleHost:
  "list_all singleHost ps \<Longrightarrow> list_all singleHost (appendRules ps c)"
  by (induction ps) (simp_all add: singleHost_def)

lemma MergeInboundPolicies_singleHost:
  assumes "list_all singleHost original" and "singleHost latest"
  shows "\<exists>merged. MergeInboundPolicies s original latest = Inr merged \<and> list_all singleHost merged"
proof -
  have "\<not> list_ex (\<lambda>p. partialOverlap p latest) original"
    using assms singleHost_no_partialOverlap by (auto simp add: list_ex_iff list_all_iff)
  then show ?thesis
    using assms by (simp add: MergeInboundPolicies_def appendRules_singleHost)
qed

lemma AddRule_Hostnames: "Hostnames (AddRule p route ident) = Hostnames p"
  by (simp add: AddRule_def)

lemma pathsLoop_v1beta1_Hostnames:
  "pathsLoop_v1beta1 svc wc paths pol = Inr pol' \<Longrightarrow> Hostnames pol' = Hostnames pol"
proof (induction paths arbitrary: pol)
  case Nil
  then show ?case by simp
next
  case (Cons ip rest)
  then show ?case
    by (auto simp add: AddRule_Hostnames split: if_splits sum.splits option.splits)
qed

lemma pathsLoop_v1_Hostnames:
  "pathsLoop_v1 svc wc paths pol = Inr pol' \<Longrightarrow> Hostnames pol' = Hostnames pol"
proof (induction paths arbitrary: pol)
  case Nil
  then show ?case by simp
next
  case (Cons ip rest)
  then show ?case
    by (auto simp add: AddRule_Hostnames split: if_splits sum.splits option.splits)
qed

text \<open>
  From policies with one hostname each, a loop either returns policies with one hostname
  each or stops at a nil pointer that its input holds; a merge never fails there.
\<close>

lemma rulesLoop_v1beta1_outcome:
  "list_all singleHost acc \<Longrightarrow>
   (case rulesLoop_v1beta1 svc wc ingress rules acc of
      Inl c \<Rightarrow> c = NilPointerDereference RuleHTTPPointer
               \<and> \<not> list_all (\<lambda>rule. HTTP_v1beta1 rule \<noteq> None) rules
    | Inr acc' \<Rightarrow> list_all singleHost acc')"
proof (induction rules arbitrary: acc)
  case Nil
  then show ?case by simp
next
  case (Cons rule rest)
  define domain where
    "domain = (if Host_v1beta1 rule = [] then WildcardHTTPMethod else Host_v1beta1 rule)"
  define pol where "pol = NewInboundTrafficPolicy
            (getIngressTrafficPolicyName (metaName (ObjectMeta_v1beta1 ingress))
               (metaNamespace (ObjectMeta_v1beta1 ingress)) domain) [domain]"
  show ?case
  proof (cases "HTTP_v1beta1 rule")
    case None
    then show ?thesis by (simp add: Let_def)
  next
    case (Some http)
    obtain pol' where pol': "pathsLoop_v1beta1 svc wc (Paths_v1beta1 http) pol = Inr pol'"
      using pathsLoop_v1beta1_no_panic
      by (cases "pathsLoop_v1beta1 svc wc (Paths_v1beta1 http) pol") auto
    have "Hostnames pol' = [domain]"
      using pathsLoop_v1beta1_Hostnames [OF pol']
      by (simp add: pol_def NewInboundTrafficPolicy_def)
    then have single: "singleHost pol'"
      by (simp add: singleHost_def)
    obtain merged where merged:
        "MergeInboundPolicies DisallowPartialHostnamesMatch acc pol' = Inr merged"
        "list_all singleHost merged"
      using MergeInboundPolicies_singleHost [OF Cons.prems single] by blast
    show ?thesis
    proof (cases "Rules pol' = []")
      case True
      then have "rulesLoop_v1beta1 svc wc ingress (rule # rest) acc
                   = rulesLoop_v1beta1 svc wc ingress rest acc"
        using Some pol' by (simp add: Let_def domain_def [symmetric] pol_def [symmetric])
      with Cons.IH [OF Cons.prems] Some show ?thesis by (auto split: sum.splits)
    next
      case False
      then have "rulesLoop_v1beta1 svc wc ingress (rule # rest) acc
                   = rulesLoop_v1beta1 svc wc ingress rest merged"
        using Some pol' merged(1)
        by (simp add: Let_def domain_def [symmetric] pol_def [symmetric])
      with Cons.IH [OF merged(2)] Some show ?thesis by (auto split: sum.splits)
    qed
  qed
qed

lemma rulesLoop_v1_outcome:
  "list_all singleHost acc \<Longrightarrow>
   (case rulesLoop_v1 svc wc ingress rules acc of
      Inl c \<Rightarrow> (c = NilPointerDereference RuleHTTPPointer
                 \<or> c = NilPointerDereference BackendServicePointer)
               \<and> \<not> list_all (\<lambda>rule. case HTTP_v1 rule of
                                         None \<Rightarrow> False
                                       | Some http \<Rightarrow> servicesSet_v1 (Paths_v1 http)) rules
    | Inr acc' \<Rightarrow> list_all singleHost acc')"
proof (induction rules arbitrary: acc)
  case Nil
  then show ?case by simp
next
  case (Cons rule rest)
  define domain where "domain = (if Host_v1 rule = [] then WildcardHTTPMethod else Host_v1 rule)"
  define pol where "pol = NewInboundTrafficPolicy
            (getIngressTrafficPolicyName (metaName (ObjectMeta_v1 ingress))
               (metaNamespace (ObjectMeta_v1 ingress)) domain) [domain]"
  show ?case
  proof (cases "HTTP_v1 rule")
    case None
    then show ?thesis by (simp add: Let_def)
  next
    case (Some http)
    show ?thesis
    proof (cases "pathsLoop_v1 svc wc (Paths_v1 http) pol")
      case (Inl c)
      then have "c = NilPointerDereference BackendServicePointer"
        by (rule pathsLoop_v1_Inl)
      moreover have "\<not> servicesSet_v1 (Paths_v1 http)"
        using Inl pathsLoop_v1_no_panic by blast
      ultimately show ?thesis
        using Some Inl by (simp add: Let_def domain_def [symmetric] pol_def [symmetric])
    next
      case (Inr pol')
      have "Hostnames pol' = [domain]"
        using pathsLoop_v1_Hostnames [OF Inr]
        by (simp add: pol_def NewInboundTrafficPolicy_def)
      then have single: "singleHost pol'"
        by (simp add: singleHost_def)
      obtain merged where merged:
          "MergeInboundPolicies DisallowPartialHostnamesMatch acc pol' = Inr merged"
          "list_all singleHost merged"
        using MergeInboundPolicies_singleHost [OF Cons.prems single] by blast
      have a: "case rulesLoop_v1 svc wc ingress rest merged of
                 Inl c \<Rightarrow> (c = NilPointerDereference RuleHTTPPointer
                            \<or> c = NilPointerDereference BackendServicePointer)
                          \<and> \<not> list_all (\<lambda>rule. case HTTP_v1 rule of
                                         None \<Rightarrow> False
                                       | Some http \<Rightarrow> servicesSet_v1 (Paths_v1 http)) rest
               | Inr acc' \<Rightarrow> list_all singleHost acc'"
        by (rule Cons.IH [OF merged(2)])
      have b: "case rulesLoop_v1 svc wc ingress rest acc of
                 Inl c \<Rightarrow> (c = NilPointerDereference RuleHTTPPointer
                            \<or> c = NilPointerDereference BackendServicePointer)
                          \<and> \<not> list_all (\<lambda>rule. case HTTP_v1 rule of
                                         None \<Rightarrow> False
                                       | Some http \<Rightarrow> servicesSet_v1 (Paths_v1 http)) rest
               | Inr acc' \<Rightarrow> list_all singleHost acc'"
        by (rule Cons.IH [OF Cons.prems])
      show ?thesis
      proof (cases "Rules pol' = []")
        case True
        then have "rulesLoop_v1 svc wc ingress (rule # rest) acc
                     = rulesLoop_v1 svc wc ingress rest acc"
          using Some Inr by (simp add: Let_def domain_def [symmetric] pol_def [symmetric])
        with b Some Inr show ?thesis
          using pathsLoop_v1_no_panic by (auto split: sum.splits)
      next
        case False
        then have "rulesLoop_v1 svc wc ingress (rule # rest) acc
                     = rulesLoop_v1 svc wc ingress rest merged"
          using Some Inr merged(1)
          by (simp add: Let_def domain_def [symmetric] pol_def [symmetric])
        with a Some Inr show ?thesis
          using pathsLoop_v1_no_panic by (auto split: sum.splits)
      qed
    qed
  qed
qed

lemma wildcardIngressPolicy_singleHost: "singleHost (wildcardIngressPolicy meta wc)"
  by (simp add: singleHost_def wildcardIngressPolicy_def AddRule_def NewInboundTrafficPolicy_def)

lemma ingressesLoop_v1beta1_outcome:
  "list_all singleHost acc \<Longrightarrow>
   (case ingressesLoop_v1beta1 svc wc ingresses acc of
      Inl c \<Rightarrow> c = NilPointerDereference RuleHTTPPointer
               \<and> \<not> list_all pointersSet_v1beta1 ingresses
    | Inr acc' \<Rightarrow> list_all singleHost acc')"
proof (induction ingresses arbitrary: acc)
  case Nil
  then show ?case by simp
next
  case (Cons ingress rest)
  define step where "step = (case SpecBackend_v1beta1 (Spec_v1beta1 ingress) of
              None \<Rightarrow> Inr acc
            | Some backend \<Rightarrow>
                if ServiceName backend = Name svc then
                  MergeInboundPolicies DisallowPartialHostnamesMatch acc
                    (wildcardIngressPolicy (ObjectMeta_v1beta1 ingress) wc)
                else Inr acc)"
  have "\<exists>a. step = Inr a \<and> list_all singleHost a"
    using Cons.prems
      MergeInboundPolicies_singleHost [OF Cons.prems wildcardIngressPolicy_singleHost]
    by (auto simp add: step_def split: option.splits)
  then obtain a where a: "step = Inr a" "list_all singleHost a" by blast
  have unfold: "ingressesLoop_v1beta1 svc wc (ingress # rest) acc =
      (case rulesLoop_v1beta1 svc wc ingress (SpecRules_v1beta1 (Spec_v1beta1 ingress)) a of
         Inl c \<Rightarrow> Inl c
       | Inr afterRules \<Rightarrow> ingressesLoop_v1beta1 svc wc rest afterRules)"
    using a(1) by (simp add: step_def [symmetric])
  show ?case
  proof (cases "rulesLoop_v1beta1 svc wc ingress (SpecRules_v1beta1 (Spec_v1beta1 ingress)) a")
    case (Inl c)
    with rulesLoop_v1beta1_outcome [OF a(2), where svc = svc and wc = wc and ingress = ingress
        and rules = "SpecRules_v1beta1 (Spec_v1beta1 ingress)"] unfold
    show ?thesis by (simp add: pointersSet_v1beta1_def)
  next
    case (Inr b)
    with rulesLoop_v1beta1_outcome [OF a(2), where svc = svc and wc = wc and ingress = ingress
        and rules = "SpecRules_v1beta1 (Spec_v1beta1 ingress)"]
    have "list_all singleHost b" by simp
    from Cons.IH [OF this] unfold Inr show ?thesis
      by (auto split: sum.splits)
  qed
qed

lemma ingressesLoop_v1_outcome:
  "list_all singleHost acc \<Longrightarrow>
   (case ingressesLoop_v1 svc wc ingresses acc of
      Inl c \<Rightarrow> (c = NilPointerDereference RuleHTTPPointer
                 \<or> c = NilPointerDereference BackendServicePointer)
               \<and> \<not> list_all pointersSet_v1 ingresses
    | Inr acc' \<Rightarrow> list_all singleHost acc')"
proof (induction ingresses arbitrary: acc)
  case Nil
  then show ?case by simp
next
  case (Cons ingress rest)
  define step where "step = (case SpecDefaultBackend_v1 (Spec_v1 ingress) of
              None \<Rightarrow> Inr acc
            | Some backend \<Rightarrow>
                (case Service_v1 backend of
                   None \<Rightarrow> Inl (NilPointerDereference BackendServicePointer)
                 | Some service \<Rightarrow>
                     if ServiceBackendName service = Name svc then
                       MergeInboundPolicies DisallowPartialHostnamesMatch acc
                         (wildcardIngressPolicy (ObjectMeta_v1 ingress) wc)
                     else Inr acc))"
  have unfold: "ingressesLoop_v1 svc wc (ingress # rest) acc =
      (case step of
         Inl c \<Rightarrow> Inl c
       | Inr afterBackend \<Rightarrow>
           (case rulesLoop_v1 svc wc ingress (SpecRules_v1 (Spec_v1 ingress)) afterBackend of
              Inl c \<Rightarrow> Inl c
            | Inr afterRules \<Rightarrow> ingressesLoop_v1 svc wc rest afterRules))"
    by (simp add: step_def [symmetric])
  have step_cases: "(step = Inl (NilPointerDereference BackendServicePointer)
                      \<and> \<not> pointersSet_v1 ingress)
                    \<or> (\<exists>a. step = Inr a \<and> list_all singleHost a)"
    using Cons.prems
      MergeInboundPolicies_singleHost [OF Cons.prems wildcardIngressPolicy_singleHost]
    by (auto simp add: step_def pointersSet_v1_def split: option.splits)
  then show ?case
  proof
    assume "step = Inl (NilPointerDereference BackendServicePointer) \<and> \<not> pointersSet_v1 ingress"
    with unfold show ?thesis by simp
  next
    assume "\<exists>a. step = Inr a \<and> list_all singleHost a"
    then obtain a where a: "step = Inr a" "list_all singleHost a" by blast
    show ?thesis
    proof (cases "rulesLoop_v1 svc wc ingress (SpecRules_v1 (Spec_v1 ingress)) a")
      case (Inl c)
      with rulesLoop_v1_outcome [OF a(2), where svc = svc and wc = wc and ingress = ingress
        and rules = "SpecRules_v1 (Spec_v1 ingress)"]
        unfold a(1)
      show ?thesis by (simp add: pointersSet_v1_def)
    next
      case (Inr b)
      with rulesLoop_v1_outcome [OF a(2), where svc = svc and wc = wc and ingress = ingress
        and rules = "SpecRules_v1 (Spec_v1 ingress)"]
      have "list_all singleHost b" by simp
      from Cons.IH [OF this] unfold a(1) Inr show ?thesis
        by (auto split: sum.splits)
    qed
  qed
qed

lemma getIngressPoliciesNetworkingV1beta1_outcome:
  "case getIngressPoliciesNetworkingV1beta1 mc svc of
     Inl c \<Rightarrow> c = NilPointerDereference RuleHTTPPointer
              \<and> \<not> list_all pointersSet_v1beta1 (fst (GetIngressNetworkingV1beta1 mc svc))
   | Inr r \<Rightarrow> True"
proof -
  obtain ingresses err where f: "GetIngressNetworkingV1beta1 mc svc = (ingresses, err)"
    by (cases "GetIngressNetworkingV1beta1 mc svc")
  have "list_all singleHost []"
    by simp
  from ingressesLoop_v1beta1_outcome [OF this, where svc = svc
      and wc = "getDefaultWeightedClusterForService svc" and ingresses = ingresses] f
  show ?thesis
    by (auto simp add: getIngressPoliciesNetworkingV1beta1_def split: option.splits sum.splits)
qed

lemma getIngressPoliciesNetworkingV1_outcome:
  "case getIngressPoliciesNetworkingV1 mc svc of
     Inl c \<Rightarrow> (c = NilPointerDereference RuleHTTPPointer
                \<or> c = NilPointerDereference BackendServicePointer)
              \<and> \<not> list_all pointersSet_v1 (fst (GetIngressNetworkingV1 mc svc))
   | Inr r \<Rightarrow> True"
proof -
  obtain ingresses err where f: "GetIngressNetworkingV1 mc svc = (ingresses, err)"
    by (cases "GetIngressNetworkingV1 mc svc")
  have "list_all singleHost []"
    by simp
  from ingressesLoop_v1_outcome [OF this, where svc = svc
      and wc = "getDefaultWeightedClusterForService svc" and ingresses = ingresses] f
  show ?thesis
    by (auto simp add: getIngressPoliciesNetworkingV1_def split: option.splits sum.splits)
qed

lemma getIngressPoliciesNetworkingV1beta1_returns:
  "list_all pointersSet_v1beta1 (fst (GetIngressNetworkingV1beta1 mc svc)) \<Longrightarrow>
   \<exists>ps e. getIngressPoliciesNetworkingV1beta1 mc svc = Inr (ps, e)"
  using getIngressPoliciesNetworkingV1beta1_outcome [of mc svc]
  by (cases "getIngressPoliciesNetworkingV1beta1 mc svc") auto

lemma getIngressPoliciesNetworkingV1_returns:
  "list_all pointersSet_v1 (fst (GetIngressNetworkingV1 mc svc)) \<Longrightarrow>
   \<exists>ps e. getIngressPoliciesNetworkingV1 mc svc = Inr (ps, e)"
  using getIngressPoliciesNetworkingV1_outcome [of mc svc]
  by (cases "getIngressPoliciesNetworkingV1 mc svc") auto

text \<open>
  In particular no merge made by an extractor meets a partial overlap: the accumulated
  list starts empty and every policy merged into it has one hostname.
\<close>

lemma extraction_meets_no_overlap:
  "getIngressPoliciesNetworkingV1 mc svc \<noteq> Inl AmbiguousHostnameOverlap
   \<and> getIngressPoliciesNetworkingV1beta1 mc svc \<noteq> Inl AmbiguousHostnameOverlap"
  using getIngressPoliciesNetworkingV1_outcome [of mc svc]
    getIngressPoliciesNetworkingV1beta1_outcome [of mc svc]
  by (auto split: sum.splits)

subsection \<open>Fan-out and assembler\<close>

lemma getIngressPoliciesFromK8s_eq:
  assumes "getIngressPoliciesNetworkingV1 mc svc = Inr (p1, e1)"
    and "getIngressPoliciesNetworkingV1beta1 mc svc = Inr (p2, e2)"
  shows "getIngressPoliciesFromK8s mc svc =
           Inr ((case e1 of Some e \<Rightarrow> [] | None \<Rightarrow> p1) @ (case e2 of Some e \<Rightarrow> [] | None \<Rightarrow> p2),
                None)"
  using assms by (simp add: getIngressPoliciesFromK8s_def split: option.splits)

lemma getIngressPoliciesFromK8s_returns:
  assumes "list_all pointersSet_v1 (fst (GetIngressNetworkingV1 mc svc))"
    and "list_all pointersSet_v1beta1 (fst (GetIngressNetworkingV1beta1 mc svc))"
  shows "\<exists>ps. getIngressPoliciesFromK8s mc svc = Inr (ps, None)"
proof -
  obtain p1 e1 where a: "getIngressPoliciesNetworkingV1 mc svc = Inr (p1, e1)"
    using getIngressPoliciesNetworkingV1_returns [OF assms(1)] by blast
  obtain p2 e2 where b: "getIngressPoliciesNetworkingV1beta1 mc svc = Inr (p2, e2)"
    using getIngressPoliciesNetworkingV1beta1_returns [OF assms(2)] by blast
  show ?thesis
    by (simp add: getIngressPoliciesFromK8s_eq [OF a b])
qed

lemma getIngressPoliciesFromK8s_nil_error:
  "getIngressPoliciesFromK8s mc svc = Inr (ps, e) \<Longrightarrow> e = None"
  by (auto simp add: getIngressPoliciesFromK8s_def Let_def split: sum.splits prod.splits)

lemma getIngressPoliciesNetworkingV1_fetch_error:
  "snd (GetIngressNetworkingV1 mc svc) = Some e \<Longrightarrow>
   getIngressPoliciesNetworkingV1 mc svc = Inr ([], Some e)"
  by (cases "GetIngressNetworkingV1 mc svc") (simp add: getIngressPoliciesNetworkingV1_def)

lemma getIngressPoliciesNetworkingV1beta1_fetch_error:
  "snd (GetIngressNetworkingV1beta1 mc svc) = Some e \<Longrightarrow>
   getIngressPoliciesNetworkingV1beta1 mc svc = Inr ([], Some e)"
  by (cases "GetIngressNetworkingV1beta1 mc svc") (simp add: getIngressPoliciesNetworkingV1beta1_def)

lemma getIngressPoliciesNetworkingV1_no_objects:
  "fst (GetIngressNetworkingV1 mc svc) = [] \<Longrightarrow>
   getIngressPoliciesNetworkingV1 mc svc = Inr ([], snd (GetIngressNetworkingV1 mc svc))"
  by (cases "GetIngressNetworkingV1 mc svc")
     (simp add: getIngressPoliciesNetworkingV1_def split: option.splits)

lemma getIngressPoliciesNetworkingV1beta1_no_objects:
  "fst (GetIngressNetworkingV1beta1 mc svc) = [] \<Longrightarrow>
   getIngressPoliciesNetworkingV1beta1 mc svc = Inr ([], snd (GetIngressNetworkingV1beta1 mc svc))"
  by (cases "GetIngressNetworkingV1beta1 mc svc")
     (simp add: getIngressPoliciesNetworkingV1beta1_def split: option.splits)

lemma getIngressPoliciesFromK8s_resolver_irrelevant:
  "getIngressPoliciesFromK8s (mc\<lparr>GetTargetPortToProtocolMappingForService := r\<rparr>) svc
     = getIngressPoliciesFromK8s mc svc"
proof -
  have a: "getIngressPoliciesNetworkingV1 (mc\<lparr>GetTargetPortToProtocolMappingForService := r\<rparr>) svc
             = getIngressPoliciesNetworkingV1 mc svc"
    by (simp add: getIngressPoliciesNetworkingV1_def)
  have b: "getIngressPoliciesNetworkingV1beta1 (mc\<lparr>GetTargetPortToProtocolMappingForService := r\<rparr>) svc
             = getIngressPoliciesNetworkingV1beta1 mc svc"
    by (simp add: getIngressPoliciesNetworkingV1beta1_def)
  show ?thesis
    unfolding getIngressPoliciesFromK8s_def a b ..
qed

lemma getIngressTrafficPolicyFromK8s_empty:
  "getIngressPoliciesFromK8s mc svc = Inr ([], None) \<Longrightarrow>
   getIngressTrafficPolicyFromK8s mc svc = Inr (None, None)"
  by (simp add: getIngressTrafficPolicyFromK8s_def)

lemma getIngressTrafficPolicyFromK8s_resolver_error:
  "getIngressPoliciesFromK8s mc svc = Inr (ps, None) \<Longrightarrow> ps \<noteq> [] \<Longrightarrow>
   GetTargetPortToProtocolMappingForService mc svc = (m, Some e) \<Longrightarrow>
   getIngressTrafficPolicyFromK8s mc svc =
     Inr (None, Some (Wrapf e ''Error retrieving port to protocol mapping''))"
  by (simp add: getIngressTrafficPolicyFromK8s_def)

lemma getIngressTrafficPolicyFromK8s_success:
  "getIngressPoliciesFromK8s mc svc = Inr (ps, None) \<Longrightarrow> ps \<noteq> [] \<Longrightarrow>
   GetTargetPortToProtocolMappingForService mc svc = (m, None) \<Longrightarrow>
   getIngressTrafficPolicyFromK8s mc svc =
     Inr (Some \<lparr>TrafficMatches = concat (map (portTrafficMatches svc (UseHTTPSIngress mc)) m),
                HTTPRoutePolicies = ps\<rparr>, None)"
  by (simp add: getIngressTrafficPolicyFromK8s_def trafficMatchesLoop_concat)

subsection \<open>Errors of the collaborators and the empty result\<close>

text \<open>
  Claim C3. The fan-out over the schema versions returns a nil error whenever it returns,
  and it returns whenever the objects of both versions have every pointer set that the
  extractors read without a test; it can only fail to return by a panic on such a pointer.
  When an extractor returns an error, its policies are left out and the result is what the
  other version contributes; when both return an error the result is the empty list with a
  nil error, and the assembler returns no policy and no error. An error of the
  port-to-protocol lookup, which is consulted once the route policies are not empty, ends
  \<^verbatim>\<open>getIngressTrafficPolicyFromK8s\<close> with no policy and a non-nil error wrapping it.
\<close>

theorem fetch_errors_not_fatal_resolver_error_fatal:
  "(getIngressPoliciesFromK8s mc svc = Inr (qs, err) \<longrightarrow> err = None)
   \<and> (list_all pointersSet_v1 (fst (GetIngressNetworkingV1 mc svc))
        \<and> list_all pointersSet_v1beta1 (fst (GetIngressNetworkingV1beta1 mc svc))
      \<longrightarrow> (\<exists>ps. getIngressPoliciesFromK8s mc svc = Inr (ps, None)))
   \<and> (getIngressPoliciesFromK8s mc svc = Inl c
      \<longrightarrow> c = NilPointerDereference RuleHTTPPointer
          \<or> c = NilPointerDereference BackendServicePointer)
   \<and> (getIngressPoliciesNetworkingV1 mc svc = Inr (p1, Some e1)
        \<and> getIngressPoliciesNetworkingV1beta1 mc svc = Inr (p2, None)
      \<longrightarrow> getIngressPoliciesFromK8s mc svc = Inr (p2, None))
   \<and> (getIngressPoliciesNetworkingV1 mc svc = Inr (p1, None)
        \<and> getIngressPoliciesNetworkingV1beta1 mc svc = Inr (p2, Some e2)
      \<longrightarrow> getIngressPoliciesFromK8s mc svc = Inr (p1, None))
   \<and> (getIngressPoliciesNetworkingV1 mc svc = Inr (p1, Some e1)
        \<and> getIngressPoliciesNetworkingV1beta1 mc svc = Inr (p2, Some e2)
      \<longrightarrow> getIngressPoliciesFromK8s mc svc = Inr ([], None)
          \<and> getIngressTrafficPolicyFromK8s mc svc = Inr (None, None))
   \<and> (snd (GetIngressNetworkingV1 mc svc) = Some e1
        \<and> snd (GetIngressNetworkingV1beta1 mc svc) = Some e2
      \<longrightarrow> getIngressPoliciesFromK8s mc svc = Inr ([], None))
   \<and> (getIngressPoliciesFromK8s mc svc = Inr (ps, None) \<and> ps \<noteq> []
        \<and> GetTargetPortToProtocolMappingForService mc svc = (m, Some e)
      \<longrightarrow> getIngressTrafficPolicyFromK8s mc svc =
            Inr (None, Some (Wrapf e ''Error retrieving port to protocol mapping'')))"
proof -
  have a: "\<exists>ps. getIngressPoliciesFromK8s mc svc = Inr (ps, None)"
    if "list_all pointersSet_v1 (fst (GetIngressNetworkingV1 mc svc))
        \<and> list_all pointersSet_v1beta1 (fst (GetIngressNetworkingV1beta1 mc svc))"
    using that getIngressPoliciesFromK8s_returns [of mc svc] by blast
  have n: "err = None" if "getIngressPoliciesFromK8s mc svc = Inr (qs, err)"
    using that by (rule getIngressPoliciesFromK8s_nil_error)
  have p: "c = NilPointerDereference RuleHTTPPointer
          \<or> c = NilPointerDereference BackendServicePointer"
    if "getIngressPoliciesFromK8s mc svc = Inl c"
    using that getIngressPoliciesNetworkingV1_outcome [of mc svc]
      getIngressPoliciesNetworkingV1beta1_outcome [of mc svc]
    by (auto simp add: getIngressPoliciesFromK8s_def Let_def split: sum.splits prod.splits)
  have b: "getIngressPoliciesFromK8s mc svc = Inr (p2, None)"
    if "getIngressPoliciesNetworkingV1 mc svc = Inr (p1, Some e1)"
      "getIngressPoliciesNetworkingV1beta1 mc svc = Inr (p2, None)"
    by (simp add: getIngressPoliciesFromK8s_eq [OF that])
  have c: "getIngressPoliciesFromK8s mc svc = Inr (p1, None)"
    if "getIngressPoliciesNetworkingV1 mc svc = Inr (p1, None)"
      "getIngressPoliciesNetworkingV1beta1 mc svc = Inr (p2, Some e2)"
    by (simp add: getIngressPoliciesFromK8s_eq [OF that])
  have d: "getIngressPoliciesFromK8s mc svc = Inr ([], None)"
    if "getIngressPoliciesNetworkingV1 mc svc = Inr (p1, Some e1)"
      "getIngressPoliciesNetworkingV1beta1 mc svc = Inr (p2, Some e2)"
    by (simp add: getIngressPoliciesFromK8s_eq [OF that])
  have f: "getIngressPoliciesFromK8s mc svc = Inr ([], None)"
    if "snd (GetIngressNetworkingV1 mc svc) = Some e1"
      "snd (GetIngressNetworkingV1beta1 mc svc) = Some e2"
    using getIngressPoliciesFromK8s_eq
      [OF getIngressPoliciesNetworkingV1_fetch_error [OF that(1)]
          getIngressPoliciesNetworkingV1beta1_fetch_error [OF that(2)]]
    by simp
  show ?thesis
    using a n p b c d f getIngressTrafficPolicyFromK8s_empty [of mc svc]
      getIngressTrafficPolicyFromK8s_resolver_error [of mc svc ps m e]
    by blast
qed

text \<open>
  Claim C6. When the route policies gathered from both schema versions are empty,
  \<^verbatim>\<open>getIngressTrafficPolicyFromK8s\<close> returns no policy and no error, whatever the
  port-to-protocol lookup would answer: the result is the same with any lookup in its
  place. This is the case when neither schema version has an ingress object for the service.
\<close>

theorem no_route_policies_no_ingress_policy:
  "(getIngressPoliciesFromK8s mc svc = Inr ([], None)
      \<longrightarrow> (\<forall>r. getIngressTrafficPolicyFromK8s
                  (mc\<lparr>GetTargetPortToProtocolMappingForService := r\<rparr>) svc = Inr (None, None)))
   \<and> (fst (GetIngressNetworkingV1 mc svc) = [] \<and> fst (GetIngressNetworkingV1beta1 mc svc) = []
      \<longrightarrow> getIngressPoliciesFromK8s mc svc = Inr ([], None)
          \<and> (\<forall>r. getIngressTrafficPolicyFromK8s
                  (mc\<lparr>GetTargetPortToProtocolMappingForService := r\<rparr>) svc = Inr (None, None)))"
proof -
  have a: "getIngressTrafficPolicyFromK8s
             (mc\<lparr>GetTargetPortToProtocolMappingForService := r\<rparr>) svc = Inr (None, None)"
    if "getIngressPoliciesFromK8s mc svc = Inr ([], None)" for r
    using that
    by (simp add: getIngressTrafficPolicyFromK8s_empty getIngressPoliciesFromK8s_resolver_irrelevant)
  have b: "getIngressPoliciesFromK8s mc svc = Inr ([], None)"
    if "fst (GetIngressNetworkingV1 mc svc) = []" "fst (GetIngressNetworkingV1beta1 mc svc) = []"
    using getIngressPoliciesFromK8s_eq
      [OF getIngressPoliciesNetworkingV1_no_objects [OF that(1)]
          getIngressPoliciesNetworkingV1beta1_no_objects [OF that(2)]]
    by (simp split: option.splits)
  show ?thesis
    using a b by blast
qed

subsection \<open>The same on sample catalogs\<close>

lemma noPortsCatalog_v1:
  "getIngressPoliciesNetworkingV1 noPortsCatalog webService =
     Inr ([wildcardIngressPolicy \<lparr>metaName = ''front'', metaNamespace = ''shop''\<rparr>
             (getDefaultWeightedClusterForService webService)], None)"
  by (simp add: getIngressPoliciesNetworkingV1_def noPortsCatalog_def defaultBackendIngress_v1_def
      webService_def MergeInboundPolicies_def)

theorem fetch_errors_not_fatal_resolver_error_fatal_witness:
  "getIngressPoliciesFromK8s failingCatalog webService = Inr ([], None)
   \<and> getIngressTrafficPolicyFromK8s failingCatalog webService = Inr (None, None)
   \<and> getIngressTrafficPolicyFromK8s noPortsCatalog webService =
       Inr (None, Some (Wrapf (ErrorString ''no endpoints'')
                          ''Error retrieving port to protocol mapping''))
   \<and> list_all pointersSet_v1 (fst (GetIngressNetworkingV1 shopCatalog webService))
   \<and> list_all pointersSet_v1beta1 (fst (GetIngressNetworkingV1beta1 shopCatalog webService))
   \<and> (\<exists>ps. getIngressPoliciesFromK8s shopCatalog webService = Inr (ps, None))"
proof -
  have set: "list_all pointersSet_v1 (fst (GetIngressNetworkingV1 shopCatalog webService))
     \<and> list_all pointersSet_v1beta1 (fst (GetIngressNetworkingV1beta1 shopCatalog webService))"
    by (simp add: shopCatalog_def shopIngress_v1_def shopIngress_v1beta1_def
        pointersSet_v1_def pointersSet_v1beta1_def servicesSet_v1_def cartPath_v1_def
        oldPath_v1_def imgPath_v1_def)
  have total: "\<exists>ps. getIngressPoliciesFromK8s shopCatalog webService = Inr (ps, None)"
    using fetch_errors_not_fatal_resolver_error_fatal [of shopCatalog webService] set
    by blast
  have v1: "getIngressPoliciesNetworkingV1 failingCatalog webService
              = Inr ([], Some (ErrorString ''v1 unavailable''))"
    by (simp add: getIngressPoliciesNetworkingV1_def failingCatalog_def)
  have v1beta1: "getIngressPoliciesNetworkingV1beta1 failingCatalog webService
              = Inr ([], Some (ErrorString ''v1beta1 unavailable''))"
    by (simp add: getIngressPoliciesNetworkingV1beta1_def failingCatalog_def)
  have w1beta1: "getIngressPoliciesNetworkingV1beta1 noPortsCatalog webService
              = Inr ([], Some (ErrorString ''v1beta1 unavailable''))"
    by (simp add: getIngressPoliciesNetworkingV1beta1_def noPortsCatalog_def)
  have r: "GetTargetPortToProtocolMappingForService noPortsCatalog webService
             = ([], Some (ErrorString ''no endpoints''))"
    by (simp add: noPortsCatalog_def)
  have down: "getIngressPoliciesFromK8s failingCatalog webService = Inr ([], None)
       \<and> getIngressTrafficPolicyFromK8s failingCatalog webService = Inr (None, None)"
    using fetch_errors_not_fatal_resolver_error_fatal
      [of failingCatalog webService _ _ _ "[]" "ErrorString ''v1 unavailable''" "[]"
          "ErrorString ''v1beta1 unavailable''"]
      v1 v1beta1
    by simp
  have fan: "getIngressPoliciesFromK8s noPortsCatalog webService =
      Inr ([wildcardIngressPolicy \<lparr>metaName = ''front'', metaNamespace = ''shop''\<rparr>
             (getDefaultWeightedClusterForService webService)], None)"
    using fetch_errors_not_fatal_resolver_error_fatal
      [of noPortsCatalog webService _ _ _
          "[wildcardIngressPolicy \<lparr>metaName = ''front'', metaNamespace = ''shop''\<rparr>
             (getDefaultWeightedClusterForService webService)]"
          _ "[]" "ErrorString ''v1beta1 unavailable''"]
      noPortsCatalog_v1 w1beta1
    by simp
  have "getIngressTrafficPolicyFromK8s noPortsCatalog webService =
       Inr (None, Some (Wrapf (ErrorString ''no endpoints'')
                          ''Error retrieving port to protocol mapping''))"
    using fetch_errors_not_fatal_resolver_error_fatal
      [of noPortsCatalog webService _ _ _ _ _ _ _
          "[wildcardIngressPolicy \<lparr>metaName = ''front'', metaNamespace = ''shop''\<rparr>
             (getDefaultWeightedClusterForService webService)]" "[]" "ErrorString ''no endpoints''"]
      fan r
    by simp
  with down set total show ?thesis by simp
qed

theorem no_route_policies_no_ingress_policy_witness:
  "getIngressPoliciesFromK8s emptyCatalog webService = Inr ([], None)
   \<and> getIngressTrafficPolicyFromK8s emptyCatalog webService = Inr (None, None)
   \<and> getIngressTrafficPolicyFromK8s
       (emptyCatalog\<lparr>GetTargetPortToProtocolMappingForService := (\<lambda>svc. ([(80, ''http'')], None))\<rparr>)
       webService = Inr (None, None)"
proof -
  have f: "fst (GetIngressNetworkingV1 emptyCatalog webService) = []
         \<and> fst (GetIngressNetworkingV1beta1 emptyCatalog webService) = []"
    by (simp add: emptyCatalog_def)
  have same: "emptyCatalog\<lparr>GetTargetPortToProtocolMappingForService :=
                GetTargetPortToProtocolMappingForService emptyCatalog\<rparr> = emptyCatalog"
    by simp
  from no_route_policies_no_ingress_policy [of emptyCatalog webService] f
  have all: "getIngressPoliciesFromK8s emptyCatalog webService = Inr ([], None)
     \<and> (\<forall>r. getIngressTrafficPolicyFromK8s
                  (emptyCatalog\<lparr>GetTargetPortToProtocolMappingForService := r\<rparr>) webService
              = Inr (None, None))"
    by blast
  then have "getIngressTrafficPolicyFromK8s
               (emptyCatalog\<lparr>GetTargetPortToProtocolMappingForService :=
                  GetTargetPortToProtocolMappingForService emptyCatalog\<rparr>) webService
              = Inr (None, None)"
    by blast
  with all same show ?thesis by simp
qed

subsection \<open>Traffic matches per port\<close>

text \<open>
  Claim C5. For an entry of the port map: a port whose protocol is not HTTP gives no
  traffic match; an HTTP port with HTTPS ingress disabled gives exactly one match, named
  \<^verbatim>\<open>ingress_<svc>_<port>_http\<close>, with protocol HTTP and no server names; an HTTP port
  with HTTPS ingress enabled gives exactly two matches, both with protocol HTTPS and
  client certificate validation skipped, the first named \<^verbatim>\<open>ingress_<svc>_<port>_https\<close>
  without server names and the second named \<^verbatim>\<open>ingress_<svc>_<port>_https_with_sni\<close> with
  the service's server name as its only server name. The loop over the port map collects
  these matches, entry after entry, and they are the traffic matches of the policy returned.
\<close>

theorem traffic_matches_per_port:
  "(appProtocol \<noteq> ProtocolHTTP
      \<longrightarrow> portTrafficMatches svc enableHTTPSIngress (port, appProtocol) = [])
   \<and> portTrafficMatches svc False (port, ProtocolHTTP) =
       [\<lparr>MatchName = ''ingress_'' @ svcString svc @ ''_'' @ decimal port @ ''_http'',
         Port = port, Protocol = ''http'', SkipClientCertValidation = False,
         ServerNames = []\<rparr>]
   \<and> portTrafficMatches svc True (port, ProtocolHTTP) =
       [\<lparr>MatchName = ''ingress_'' @ svcString svc @ ''_'' @ decimal port @ ''_https'',
         Port = port, Protocol = ''https'', SkipClientCertValidation = True,
         ServerNames = []\<rparr>,
        \<lparr>MatchName = ''ingress_'' @ svcString svc @ ''_'' @ decimal port @ ''_https_with_sni'',
         Port = port, Protocol = ''https'', SkipClientCertValidation = True,
         ServerNames = [ServerName svc]\<rparr>]
   \<and> trafficMatchesLoop svc enableHTTPSIngress entries [] =
       concat (map (portTrafficMatches svc enableHTTPSIngress) entries)
   \<and> (getIngressPoliciesFromK8s mc svc = Inr (ps, None) \<and> ps \<noteq> []
        \<and> GetTargetPortToProtocolMappingForService mc svc = (entries, None)
      \<longrightarrow> getIngressTrafficPolicyFromK8s mc svc =
            Inr (Some \<lparr>TrafficMatches =
                         concat (map (portTrafficMatches svc (UseHTTPSIngress mc)) entries),
                       HTTPRoutePolicies = ps\<rparr>, None))"
proof -
  have a: "portTrafficMatches svc enableHTTPSIngress (port, appProtocol) = []"
    if "appProtocol \<noteq> ProtocolHTTP"
    using that by (rule portTrafficMatches_not_http)
  have b: "trafficMatchesLoop svc enableHTTPSIngress entries [] =
       concat (map (portTrafficMatches svc enableHTTPSIngress) entries)"
    by (simp add: trafficMatchesLoop_concat)
  show ?thesis
    using a b portTrafficMatches_http [of svc port] portTrafficMatches_https [of svc port]
      getIngressTrafficPolicyFromK8s_success [of mc svc ps entries]
    by blast
qed

theorem traffic_matches_per_port_witness:
  "portTrafficMatches webService True (443, ''tcp'') = []
   \<and> portTrafficMatches webService False (80, ''http'') =
       [\<lparr>MatchName = ''ingress_shop/web_80_http'', Port = 80, Protocol = ''http'',
         SkipClientCertValidation = False, ServerNames = []\<rparr>]
   \<and> portTrafficMatches webService True (80, ''http'') =
       [\<lparr>MatchName = ''ingress_shop/web_80_https'', Port = 80, Protocol = ''https'',
         SkipClientCertValidation = True, ServerNames = []\<rparr>,
        \<lparr>MatchName = ''ingress_shop/web_80_https_with_sni'', Port = 80, Protocol = ''https'',
         SkipClientCertValidation = True, ServerNames = [''web.shop.svc.cluster.local'']\<rparr>]
   \<and> getIngressTrafficPolicyFromK8s servingCatalog webService =
       Inr (Some \<lparr>TrafficMatches =
                    [\<lparr>MatchName = ''ingress_shop/web_80_https'', Port = 80, Protocol = ''https'',
                      SkipClientCertValidation = True, ServerNames = []\<rparr>,
                     \<lparr>MatchName = ''ingress_shop/web_80_https_with_sni'', Port = 80,
                      Protocol = ''https'', SkipClientCertValidation = True,
                      ServerNames = [''web.shop.svc.cluster.local'']\<rparr>],
                  HTTPRoutePolicies =
                    [wildcardIngressPolicy \<lparr>metaName = ''front'', metaNamespace = ''shop''\<rparr>
                       (getDefaultWeightedClusterForService webService)]\<rparr>, None)"
proof -
  have v1: "getIngressPoliciesNetworkingV1 servingCatalog webService = Inr ([], None)"
    by (simp add: getIngressPoliciesNetworkingV1_def servingCatalog_def)
  have v1beta1: "getIngressPoliciesNetworkingV1beta1 servingCatalog webService =
     Inr ([wildcardIngressPolicy \<lparr>metaName = ''front'', metaNamespace = ''shop''\<rparr>
             (getDefaultWeightedClusterForService webService)], None)"
    by (simp add: getIngressPoliciesNetworkingV1beta1_def servingCatalog_def
        defaultBackendIngress_v1beta1_def webService_def MergeInboundPolicies_def)
  have fan: "getIngressPoliciesFromK8s servingCatalog webService =
     Inr ([wildcardIngressPolicy \<lparr>metaName = ''front'', metaNamespace = ''shop''\<rparr>
             (getDefaultWeightedClusterForService webService)], None)"
    by (simp add: getIngressPoliciesFromK8s_eq [OF v1 v1beta1])
  have r: "GetTargetPortToProtocolMappingForService servingCatalog webService
             = ([(443, ''tcp''), (80, ''http'')], None)"
    by (simp add: servingCatalog_def)
  have tcp: "''tcp'' \<noteq> ProtocolHTTP"
    by (simp add: ProtocolHTTP_def)
  have http: "ProtocolHTTP = ''http''"
    by (simp add: ProtocolHTTP_def)
  have flag: "UseHTTPSIngress servingCatalog"
    by (simp add: servingCatalog_def)
  have names: "svcString webService = ''shop/web''"
      "ServerName webService = ''web.shop.svc.cluster.local''"
    by (simp_all add: webService_def)
  show ?thesis
    using traffic_matches_per_port
      [of "''tcp''" webService True 443 "[(443, ''tcp''), (80, ''http'')]" servingCatalog
          "[wildcardIngressPolicy \<lparr>metaName = ''front'', metaNamespace = ''shop''\<rparr>
             (getDefaultWeightedClusterForService webService)]"]
      traffic_matches_per_port [of "''tcp''" webService True 80 "[]" servingCatalog "[]"]
      fan r tcp flag
    by (simp add: http names decimal_80)
qed

subsection \<open>Skipping a path entry of unknown type\<close>

lemma pathTypeSwitch_v1beta1_skip_iff:
  "pathTypeSwitch_v1beta1 ip = Inr None \<longleftrightarrow> unknownPathType (PathType_v1beta1 ip)"
  by (cases "PathType_v1beta1 ip")
     (auto simp add: pathTypeSwitch_v1beta1_def unknownPathType_def PathTypePrefix_def
       PathTypeExact_def PathTypeImplementationSpecific_def Let_def)

lemma pathTypeSwitch_v1_skip_iff:
  "pathTypeSwitch_v1 ip = Inr None \<longleftrightarrow> unknownPathType (PathType_v1 ip)"
  by (cases "PathType_v1 ip")
     (auto simp add: pathTypeSwitch_v1_def unknownPathType_def PathTypePrefix_def
       PathTypeExact_def PathTypeImplementationSpecific_def Let_def)

lemma pathsLoop_v1beta1_skip_one:
  "unknownPathType (PathType_v1beta1 bad) \<Longrightarrow>
   pathsLoop_v1beta1 svc wc (xs @ bad # ys) pol = pathsLoop_v1beta1 svc wc (xs @ ys) pol"
proof (induction xs arbitrary: pol)
  case Nil
  then have "pathTypeSwitch_v1beta1 bad = Inr None"
    by (simp add: pathTypeSwitch_v1beta1_skip_iff)
  then show ?case by simp
next
  case (Cons x xs)
  then show ?case by (simp split: sum.splits option.splits)
qed

lemma pathsLoop_v1_skip_one:
  "skipped_v1 bad \<Longrightarrow>
   pathsLoop_v1 svc wc (xs @ bad # ys) pol = pathsLoop_v1 svc wc (xs @ ys) pol"
proof (induction xs arbitrary: pol)
  case Nil
  then have "pathTypeSwitch_v1 bad = Inr None"
    by (simp add: pathTypeSwitch_v1_skip_iff skipped_v1_def)
  with Nil show ?case by (auto simp add: skipped_v1_def)
next
  case (Cons x xs)
  then show ?case by (simp split: sum.splits option.splits)
qed

lemma pathsLoop_v1beta1_filter:
  "pathsLoop_v1beta1 svc wc (filter (\<lambda>ip. \<not> unknownPathType (PathType_v1beta1 ip)) paths) pol
     = pathsLoop_v1beta1 svc wc paths pol"
proof (induction paths arbitrary: pol)
  case Nil
  show ?case by simp
next
  case (Cons ip rest)
  show ?case
  proof (cases "unknownPathType (PathType_v1beta1 ip)")
    case True
    then have "pathTypeSwitch_v1beta1 ip = Inr None"
      by (simp add: pathTypeSwitch_v1beta1_skip_iff)
    with True show ?thesis by (simp add: Cons.IH)
  next
    case False
    then show ?thesis by (simp add: Cons.IH split: sum.splits option.splits)
  qed
qed

lemma pathsLoop_v1_filter:
  "pathsLoop_v1 svc wc (filter (\<lambda>ip. \<not> skipped_v1 ip) paths) pol
     = pathsLoop_v1 svc wc paths pol"
proof (induction paths arbitrary: pol)
  case Nil
  show ?case by simp
next
  case (Cons ip rest)
  show ?case
  proof (cases "skipped_v1 ip")
    case True
    then have sw: "pathTypeSwitch_v1 ip = Inr None"
      by (simp add: pathTypeSwitch_v1_skip_iff skipped_v1_def)
    from True obtain service where "Service_v1 (Backend_v1 ip) = Some service"
      by (auto simp add: skipped_v1_def)
    with True sw show ?thesis by (simp add: Cons.IH)
  next
    case False
    then show ?thesis by (simp add: Cons.IH split: sum.splits option.splits)
  qed
qed

lemma pathsLoop_v1beta1_length:
  "pathsLoop_v1beta1 svc wc paths pol = Inr pol' \<Longrightarrow>
   length (Rules pol') = length (Rules pol)
     + length (filter (\<lambda>ip. ServiceName (Backend_v1beta1 ip) = Name svc
                            \<and> \<not> unknownPathType (PathType_v1beta1 ip)) paths)"
proof (induction paths arbitrary: pol)
  case Nil
  then show ?case by simp
next
  case (Cons ip rest)
  show ?case
  proof (cases "ServiceName (Backend_v1beta1 ip) = Name svc")
    case False
    with Cons show ?thesis by simp
  next
    case True
    show ?thesis
    proof (cases "pathTypeSwitch_v1beta1 ip")
      case (Inl c)
      then show ?thesis using pathTypeSwitch_v1beta1_no_panic by blast
    next
      case (Inr r)
      show ?thesis
      proof (cases r)
        case None
        with Inr have "unknownPathType (PathType_v1beta1 ip)"
          by (simp add: pathTypeSwitch_v1beta1_skip_iff)
        with Cons True Inr None show ?thesis by simp
      next
        case (Some m)
        with Inr have "\<not> unknownPathType (PathType_v1beta1 ip)"
          using pathTypeSwitch_v1beta1_skip_iff [of ip] by simp
        with Cons.IH [of "AddRule pol (NewRouteWeightedCluster m [wc]) WildcardServiceIdentity"]
          Cons.prems True Inr Some
        show ?thesis by (simp add: AddRule_def)
      qed
    qed
  qed
qed

lemma pathsLoop_v1_length:
  "pathsLoop_v1 svc wc paths pol = Inr pol' \<Longrightarrow>
   length (Rules pol') = length (Rules pol)
     + length (filter (\<lambda>ip. map_option ServiceBackendName (Service_v1 (Backend_v1 ip))
                              = Some (Name svc)
                            \<and> \<not> unknownPathType (PathType_v1 ip)) paths)"
proof (induction paths arbitrary: pol)
  case Nil
  then show ?case by simp
next
  case (Cons ip rest)
  show ?case
  proof (cases "Service_v1 (Backend_v1 ip)")
    case None
    with Cons.prems show ?thesis by simp
  next
    case (Some service)
    show ?thesis
    proof (cases "ServiceBackendName service = Name svc")
      case False
      with Cons Some show ?thesis by simp
    next
      case True
      show ?thesis
      proof (cases "pathTypeSwitch_v1 ip")
        case (Inl c)
        then show ?thesis using pathTypeSwitch_v1_no_panic by blast
      next
        case (Inr r)
        show ?thesis
        proof (cases r)
          case None
          with Inr have "unknownPathType (PathType_v1 ip)"
            by (simp add: pathTypeSwitch_v1_skip_iff)
          with Cons True Some Inr None show ?thesis by simp
        next
          case (Some m)
          with Inr have "\<not> unknownPathType (PathType_v1 ip)"
            using pathTypeSwitch_v1_skip_iff [of ip] by simp
          with Cons.IH [of "AddRule pol (NewRouteWeightedCluster m [wc]) WildcardServiceIdentity"]
            Cons.prems True \<open>Service_v1 (Backend_v1 ip) = Some service\<close> Inr Some
          show ?thesis by (simp add: AddRule_def)
        qed
      qed
    qed
  qed
qed

subsection \<open>Skipping through the rules and objects\<close>

lemma rulesLoop_v1beta1_filter:
  assumes "ObjectMeta_v1beta1 ingress' = ObjectMeta_v1beta1 ingress"
  shows "rulesLoop_v1beta1 svc wc ingress'
           (map (\<lambda>rule. rule\<lparr>HTTP_v1beta1 :=
                   map_option (\<lambda>http. http
                     \<lparr>Paths_v1beta1 :=
                        filter (\<lambda>ingressPath. \<not> unknownPathType (PathType_v1beta1 ingressPath))
                          (Paths_v1beta1 http)\<rparr>) (HTTP_v1beta1 rule)\<rparr>) rules) acc
         = rulesLoop_v1beta1 svc wc ingress rules acc"
proof (induction rules arbitrary: acc)
  case Nil
  show ?case by simp
next
  case (Cons rule rest)
  show ?case
    by (cases "HTTP_v1beta1 rule")
       (simp_all add: Let_def assms pathsLoop_v1beta1_filter Cons.IH split: sum.splits)
qed

lemma rulesLoop_v1_filter:
  assumes "ObjectMeta_v1 ingress' = ObjectMeta_v1 ingress"
  shows "rulesLoop_v1 svc wc ingress'
           (map (\<lambda>rule. rule\<lparr>HTTP_v1 :=
                   map_option (\<lambda>http. http
                     \<lparr>Paths_v1 :=
                        filter (\<lambda>ingressPath. \<not> skipped_v1 ingressPath) (Paths_v1 http)\<rparr>)
                     (HTTP_v1 rule)\<rparr>) rules) acc
         = rulesLoop_v1 svc wc ingress rules acc"
proof (induction rules arbitrary: acc)
  case Nil
  show ?case by simp
next
  case (Cons rule rest)
  show ?case
    by (cases "HTTP_v1 rule")
       (simp_all add: Let_def assms pathsLoop_v1_filter Cons.IH split: sum.splits)
qed

lemma ingressesLoop_v1beta1_filter:
  "ingressesLoop_v1beta1 svc wc (map withoutUnknownPaths_v1beta1 ingresses) acc
     = ingressesLoop_v1beta1 svc wc ingresses acc"
proof (induction ingresses arbitrary: acc)
  case Nil
  show ?case by simp
next
  case (Cons ingress rest)
  have meta: "ObjectMeta_v1beta1 (withoutUnknownPaths_v1beta1 ingress) = ObjectMeta_v1beta1 ingress"
    by (simp add: withoutUnknownPaths_v1beta1_def)
  have backend: "SpecBackend_v1beta1 (Spec_v1beta1 (withoutUnknownPaths_v1beta1 ingress))
                   = SpecBackend_v1beta1 (Spec_v1beta1 ingress)"
    by (simp add: withoutUnknownPaths_v1beta1_def)
  have rules: "rulesLoop_v1beta1 svc wc (withoutUnknownPaths_v1beta1 ingress)
                 (SpecRules_v1beta1 (Spec_v1beta1 (withoutUnknownPaths_v1beta1 ingress))) a
               = rulesLoop_v1beta1 svc wc ingress (SpecRules_v1beta1 (Spec_v1beta1 ingress)) a" for a
    using rulesLoop_v1beta1_filter [OF meta] by (simp add: withoutUnknownPaths_v1beta1_def)
  show ?case
    unfolding list.map ingressesLoop_v1beta1.simps meta backend rules Cons.IH ..
qed

lemma ingressesLoop_v1_filter:
  "ingressesLoop_v1 svc wc (map withoutUnknownPaths_v1 ingresses) acc
     = ingressesLoop_v1 svc wc ingresses acc"
proof (induction ingresses arbitrary: acc)
  case Nil
  show ?case by simp
next
  case (Cons ingress rest)
  have meta: "ObjectMeta_v1 (withoutUnknownPaths_v1 ingress) = ObjectMeta_v1 ingress"
    by (simp add: withoutUnknownPaths_v1_def)
  have backend: "SpecDefaultBackend_v1 (Spec_v1 (withoutUnknownPaths_v1 ingress))
                   = SpecDefaultBackend_v1 (Spec_v1 ingress)"
    by (simp add: withoutUnknownPaths_v1_def)
  have rules: "rulesLoop_v1 svc wc (withoutUnknownPaths_v1 ingress)
                 (SpecRules_v1 (Spec_v1 (withoutUnknownPaths_v1 ingress))) a
               = rulesLoop_v1 svc wc ingress (SpecRules_v1 (Spec_v1 ingress)) a" for a
    using rulesLoop_v1_filter [OF meta] by (simp add: withoutUnknownPaths_v1_def)
  show ?case
    unfolding list.map ingressesLoop_v1.simps meta backend rules Cons.IH ..
qed

lemma getIngressPoliciesNetworkingV1beta1_filter:
  "getIngressPoliciesNetworkingV1beta1
     (mc\<lparr>GetIngressNetworkingV1beta1 :=
           (\<lambda>s. (map withoutUnknownPaths_v1beta1 (fst (GetIngressNetworkingV1beta1 mc s)),
                 snd (GetIngressNetworkingV1beta1 mc s)))\<rparr>) svc
     = getIngressPoliciesNetworkingV1beta1 mc svc"
  by (cases "GetIngressNetworkingV1beta1 mc svc")
     (simp add: getIngressPoliciesNetworkingV1beta1_def ingressesLoop_v1beta1_filter
       split: option.splits)

lemma getIngressPoliciesNetworkingV1_filter:
  "getIngressPoliciesNetworkingV1
     (mc\<lparr>GetIngressNetworkingV1 :=
           (\<lambda>s. (map withoutUnknownPaths_v1 (fst (GetIngressNetworkingV1 mc s)),
                 snd (GetIngressNetworkingV1 mc s)))\<rparr>) svc
     = getIngressPoliciesNetworkingV1 mc svc"
  by (cases "GetIngressNetworkingV1 mc svc")
     (simp add: getIngressPoliciesNetworkingV1_def ingressesLoop_v1_filter
       split: option.splits)

lemma rulesLoop_v1beta1_step:
  assumes "HTTP_v1beta1 rule = Some http"
  shows "\<exists>pol'. pathsLoop_v1beta1 svc wc (Paths_v1beta1 http)
            (NewInboundTrafficPolicy
               (getIngressTrafficPolicyName (metaName (ObjectMeta_v1beta1 ingress))
                  (metaNamespace (ObjectMeta_v1beta1 ingress))
                  (if Host_v1beta1 rule = [] then WildcardHTTPMethod else Host_v1beta1 rule))
               [if Host_v1beta1 rule = [] then WildcardHTTPMethod else Host_v1beta1 rule])
          = Inr pol'
     \<and> (Rules pol' \<noteq> [] \<longleftrightarrow>
          (\<exists>ip \<in> set (Paths_v1beta1 http).
             ServiceName (Backend_v1beta1 ip) = Name svc
             \<and> \<not> unknownPathType (PathType_v1beta1 ip)))
     \<and> rulesLoop_v1beta1 svc wc ingress (rule # rest) acc =
         (if Rules pol' \<noteq> [] then
            (case MergeInboundPolicies DisallowPartialHostnamesMatch acc pol' of
               Inl c \<Rightarrow> Inl c
             | Inr merged \<Rightarrow> rulesLoop_v1beta1 svc wc ingress rest merged)
          else rulesLoop_v1beta1 svc wc ingress rest acc)"
proof -
  define pol where "pol = NewInboundTrafficPolicy
               (getIngressTrafficPolicyName (metaName (ObjectMeta_v1beta1 ingress))
                  (metaNamespace (ObjectMeta_v1beta1 ingress))
                  (if Host_v1beta1 rule = [] then WildcardHTTPMethod else Host_v1beta1 rule))
               [if Host_v1beta1 rule = [] then WildcardHTTPMethod else Host_v1beta1 rule]"
  obtain pol' where pol': "pathsLoop_v1beta1 svc wc (Paths_v1beta1 http) pol = Inr pol'"
    using pathsLoop_v1beta1_no_panic
    by (cases "pathsLoop_v1beta1 svc wc (Paths_v1beta1 http) pol") auto
  have "Rules pol = []"
    by (simp add: pol_def NewInboundTrafficPolicy_def)
  with pathsLoop_v1beta1_length [OF pol']
  have len: "length (Rules pol') =
      length (filter (\<lambda>ip. ServiceName (Backend_v1beta1 ip) = Name svc
                            \<and> \<not> unknownPathType (PathType_v1beta1 ip))
                (Paths_v1beta1 http))"
    by simp
  have iff: "Rules pol' \<noteq> [] \<longleftrightarrow>
          (\<exists>ip \<in> set (Paths_v1beta1 http).
             ServiceName (Backend_v1beta1 ip) = Name svc
             \<and> \<not> unknownPathType (PathType_v1beta1 ip))"
    using len by (metis (mono_tags, lifting) filter_False filter_empty_conv length_0_conv)
  have step: "rulesLoop_v1beta1 svc wc ingress (rule # rest) acc =
         (if Rules pol' \<noteq> [] then
            (case MergeInboundPolicies DisallowPartialHostnamesMatch acc pol' of
               Inl c \<Rightarrow> Inl c
             | Inr merged \<Rightarrow> rulesLoop_v1beta1 svc wc ingress rest merged)
          else rulesLoop_v1beta1 svc wc ingress rest acc)"
    using pol' assms by (simp add: Let_def pol_def [symmetric])
  show ?thesis
    using pol' iff step unfolding pol_def by blast
qed

lemma rulesLoop_v1_step_returned:
  assumes "HTTP_v1 rule = Some http"
    and pol': "pathsLoop_v1 svc wc (Paths_v1 http)
            (NewInboundTrafficPolicy
               (getIngressTrafficPolicyName (metaName (ObjectMeta_v1 ingress))
                  (metaNamespace (ObjectMeta_v1 ingress))
                  (if Host_v1 rule = [] then WildcardHTTPMethod else Host_v1 rule))
               [if Host_v1 rule = [] then WildcardHTTPMethod else Host_v1 rule])
          = Inr pol'"
  shows "(Rules pol' \<noteq> [] \<longleftrightarrow>
          (\<exists>ip \<in> set (Paths_v1 http).
             map_option ServiceBackendName (Service_v1 (Backend_v1 ip)) = Some (Name svc)
             \<and> \<not> unknownPathType (PathType_v1 ip)))
     \<and> rulesLoop_v1 svc wc ingress (rule # rest) acc =
         (if Rules pol' \<noteq> [] then
            (case MergeInboundPolicies DisallowPartialHostnamesMatch acc pol' of
               Inl c \<Rightarrow> Inl c
             | Inr merged \<Rightarrow> rulesLoop_v1 svc wc ingress rest merged)
          else rulesLoop_v1 svc wc ingress rest acc)"
proof -
  define pol where "pol = NewInboundTrafficPolicy
               (getIngressTrafficPolicyName (metaName (ObjectMeta_v1 ingress))
                  (metaNamespace (ObjectMeta_v1 ingress))
                  (if Host_v1 rule = [] then WildcardHTTPMethod else Host_v1 rule))
               [if Host_v1 rule = [] then WildcardHTTPMethod else Host_v1 rule]"
  have run: "pathsLoop_v1 svc wc (Paths_v1 http) pol = Inr pol'"
    using pol' by (simp add: pol_def)
  have "Rules pol = []"
    by (simp add: pol_def NewInboundTrafficPolicy_def)
  with pathsLoop_v1_length [OF run]
  have len: "length (Rules pol') =
      length (filter (\<lambda>ip. map_option ServiceBackendName (Service_v1 (Backend_v1 ip))
                              = Some (Name svc)
                            \<and> \<not> unknownPathType (PathType_v1 ip))
                (Paths_v1 http))"
    by simp
  have iff: "Rules pol' \<noteq> [] \<longleftrightarrow>
          (\<exists>ip \<in> set (Paths_v1 http).
             map_option ServiceBackendName (Service_v1 (Backend_v1 ip)) = Some (Name svc)
             \<and> \<not> unknownPathType (PathType_v1 ip))"
    using len by (metis (mono_tags, lifting) filter_False filter_empty_conv length_0_conv)
  have step: "rulesLoop_v1 svc wc ingress (rule # rest) acc =
         (if Rules pol' \<noteq> [] then
            (case MergeInboundPolicies DisallowPartialHostnamesMatch acc pol' of
               Inl c \<Rightarrow> Inl c
             | Inr merged \<Rightarrow> rulesLoop_v1 svc wc ingress rest merged)
          else rulesLoop_v1 svc wc ingress rest acc)"
    using run assms(1) by (simp add: Let_def pol_def [symmetric])
  show ?thesis
    using iff step by blast
qed

lemma rulesLoop_v1_step:
  assumes "HTTP_v1 rule = Some http" and "servicesSet_v1 (Paths_v1 http)"
  shows "\<exists>pol'. pathsLoop_v1 svc wc (Paths_v1 http)
            (NewInboundTrafficPolicy
               (getIngressTrafficPolicyName (metaName (ObjectMeta_v1 ingress))
                  (metaNamespace (ObjectMeta_v1 ingress))
                  (if Host_v1 rule = [] then WildcardHTTPMethod else Host_v1 rule))
               [if Host_v1 rule = [] then WildcardHTTPMethod else Host_v1 rule])
          = Inr pol'
     \<and> (Rules pol' \<noteq> [] \<longleftrightarrow>
          (\<exists>ip \<in> set (Paths_v1 http).
             map_option ServiceBackendName (Service_v1 (Backend_v1 ip)) = Some (Name svc)
             \<and> \<not> unknownPathType (PathType_v1 ip)))
     \<and> rulesLoop_v1 svc wc ingress (rule # rest) acc =
         (if Rules pol' \<noteq> [] then
            (case MergeInboundPolicies DisallowPartialHostnamesMatch acc pol' of
               Inl c \<Rightarrow> Inl c
             | Inr merged \<Rightarrow> rulesLoop_v1 svc wc ingress rest merged)
          else rulesLoop_v1 svc wc ingress rest acc)"
proof -
  obtain pol' where pol': "pathsLoop_v1 svc wc (Paths_v1 http)
            (NewInboundTrafficPolicy
               (getIngressTrafficPolicyName (metaName (ObjectMeta_v1 ingress))
                  (metaNamespace (ObjectMeta_v1 ingress))
                  (if Host_v1 rule = [] then WildcardHTTPMethod else Host_v1 rule))
               [if Host_v1 rule = [] then WildcardHTTPMethod else Host_v1 rule])
          = Inr pol'"
    using pathsLoop_v1_no_panic [OF assms(2)]
    by (cases "pathsLoop_v1 svc wc (Paths_v1 http)
            (NewInboundTrafficPolicy
               (getIngressTrafficPolicyName (metaName (ObjectMeta_v1 ingress))
                  (metaNamespace (ObjectMeta_v1 ingress))
                  (if Host_v1 rule = [] then WildcardHTTPMethod else Host_v1 rule))
               [if Host_v1 rule = [] then WildcardHTTPMethod else Host_v1 rule])") auto
  from rulesLoop_v1_step_returned [OF assms(1) pol'] pol' show ?thesis
    by blast
qed

subsection \<open>The extractors on the sample objects\<close>

lemmas sample_defs =
  webService_def cartPath_v1beta1_def oldPath_v1beta1_def imgPath_v1beta1_def
  shopIngress_v1beta1_def cartPath_v1_def oldPath_v1_def imgPath_v1_def shopIngress_v1_def
  shopCatalog_def shopPolicy_def defaultBackendIngress_v1_def defaultBackendIngress_v1beta1_def
  bucketPath_v1beta1_def bucketPath_v1_def bucketIngress_v1beta1_def bucketIngress_v1_def
  bucketCatalog_def

lemmas model_defs =
  pathTypeSwitch_v1beta1_def pathTypeSwitch_v1_def PathTypeExact_def PathTypePrefix_def
  PathTypeImplementationSpecific_def TrimRight_def ContainsAny_def commonRegexChars_def
  prefixMatchPathElementsRegex_def WildcardHTTPMethod_def WildcardServiceIdentity_def
  NewInboundTrafficPolicy_def NewRouteWeightedCluster_def AddRule_def
  getIngressTrafficPolicyName_def getDefaultWeightedClusterForService_def
  ClusterWeightAcceptAll_def MergeInboundPolicies_def partialOverlap_def sameHostnames_def
  disjointHostnames_def wildcardIngressPolicy_def WildCardRouteMatch_def Let_def

lemma shopCatalog_v1beta1:
  "getIngressPoliciesNetworkingV1beta1 shopCatalog webService = Inr ([shopPolicy], None)"
  by (simp add: getIngressPoliciesNetworkingV1beta1_def sample_defs model_defs)

lemma shopCatalog_v1:
  "getIngressPoliciesNetworkingV1 shopCatalog webService = Inr ([shopPolicy], None)"
  by (simp add: getIngressPoliciesNetworkingV1_def sample_defs model_defs)

subsection \<open>Unknown path types\<close>

text \<open>
  Claim C7. A path entry whose path type is set to a tag outside \<open>Exact\<close>, \<open>Prefix\<close> and
  \<open>ImplementationSpecific\<close> is the only thing skipped: the loop over the paths of its rule
  gives the same result as on the paths before and after it alone, and each extractor
  returns what it returns on the same objects with every such entry taken out. The policy
  built for a rule gets at least one rule exactly when the rule has an entry for the
  service whose type is not unknown, and it is merged into the result exactly when it has
  at least one rule; otherwise the result is handed on unchanged. In version v1 the loop
  over the paths reads the service of an entry before its path type, so the statements
  about that loop are for entries whose backend has its service set, and the entries
  taken out are those; the statements about one rule are for a rule whose \<^verbatim>\<open>HTTP\<close> is set.
\<close>

theorem unknown_path_type_skips_only_that_path:
  "(unknownPathType (PathType_v1beta1 bad_b) \<longrightarrow>
      pathTypeSwitch_v1beta1 bad_b = Inr None
      \<and> pathsLoop_v1beta1 svc wc (xs_b @ bad_b # ys_b) pol
          = pathsLoop_v1beta1 svc wc (xs_b @ ys_b) pol)
   \<and> (unknownPathType (PathType_v1 bad_v) \<longrightarrow>
      pathTypeSwitch_v1 bad_v = Inr None
      \<and> (Service_v1 (Backend_v1 bad_v) \<noteq> None \<longrightarrow>
           pathsLoop_v1 svc wc (xs_v @ bad_v # ys_v) pol
             = pathsLoop_v1 svc wc (xs_v @ ys_v) pol))
   \<and> getIngressPoliciesNetworkingV1beta1
       (mc\<lparr>GetIngressNetworkingV1beta1 :=
             (\<lambda>s. (map withoutUnknownPaths_v1beta1 (fst (GetIngressNetworkingV1beta1 mc s)),
                   snd (GetIngressNetworkingV1beta1 mc s)))\<rparr>) svc
       = getIngressPoliciesNetworkingV1beta1 mc svc
   \<and> getIngressPoliciesNetworkingV1
       (mc\<lparr>GetIngressNetworkingV1 :=
             (\<lambda>s. (map withoutUnknownPaths_v1 (fst (GetIngressNetworkingV1 mc s)),
                   snd (GetIngressNetworkingV1 mc s)))\<rparr>) svc
       = getIngressPoliciesNetworkingV1 mc svc
   \<and> (HTTP_v1beta1 rule_b = Some http_b \<longrightarrow>
       (\<exists>pol'. pathsLoop_v1beta1 svc wc (Paths_v1beta1 http_b)
            (NewInboundTrafficPolicy
               (getIngressTrafficPolicyName (metaName (ObjectMeta_v1beta1 ingress_b))
                  (metaNamespace (ObjectMeta_v1beta1 ingress_b))
                  (if Host_v1beta1 rule_b = [] then WildcardHTTPMethod else Host_v1beta1 rule_b))
               [if Host_v1beta1 rule_b = [] then WildcardHTTPMethod else Host_v1beta1 rule_b])
          = Inr pol'
        \<and> (Rules pol' \<noteq> [] \<longleftrightarrow>
             (\<exists>ip \<in> set (Paths_v1beta1 http_b).
                ServiceName (Backend_v1beta1 ip) = Name svc
                \<and> \<not> unknownPathType (PathType_v1beta1 ip)))
        \<and> rulesLoop_v1beta1 svc wc ingress_b (rule_b # rest_b) acc =
            (if Rules pol' \<noteq> [] then
               (case MergeInboundPolicies DisallowPartialHostnamesMatch acc pol' of
                  Inl c \<Rightarrow> Inl c
                | Inr merged \<Rightarrow> rulesLoop_v1beta1 svc wc ingress_b rest_b merged)
             else rulesLoop_v1beta1 svc wc ingress_b rest_b acc)))
   \<and> (HTTP_v1 rule_v = Some http_v \<and> servicesSet_v1 (Paths_v1 http_v) \<longrightarrow>
       (\<exists>pol'. pathsLoop_v1 svc wc (Paths_v1 http_v)
            (NewInboundTrafficPolicy
               (getIngressTrafficPolicyName (metaName (ObjectMeta_v1 ingress_v))
                  (metaNamespace (ObjectMeta_v1 ingress_v))
                  (if Host_v1 rule_v = [] then WildcardHTTPMethod else Host_v1 rule_v))
               [if Host_v1 rule_v = [] then WildcardHTTPMethod else Host_v1 rule_v])
          = Inr pol'
        \<and> (Rules pol' \<noteq> [] \<longleftrightarrow>
             (\<exists>ip \<in> set (Paths_v1 http_v).
                map_option ServiceBackendName (Service_v1 (Backend_v1 ip)) = Some (Name svc)
                \<and> \<not> unknownPathType (PathType_v1 ip)))
        \<and> rulesLoop_v1 svc wc ingress_v (rule_v # rest_v) acc =
            (if Rules pol' \<noteq> [] then
               (case MergeInboundPolicies DisallowPartialHostnamesMatch acc pol' of
                  Inl c \<Rightarrow> Inl c
                | Inr merged \<Rightarrow> rulesLoop_v1 svc wc ingress_v rest_v merged)
             else rulesLoop_v1 svc wc ingress_v rest_v acc)))"
proof -
  have a: "pathTypeSwitch_v1beta1 bad_b = Inr None
      \<and> pathsLoop_v1beta1 svc wc (xs_b @ bad_b # ys_b) pol
          = pathsLoop_v1beta1 svc wc (xs_b @ ys_b) pol"
    if "unknownPathType (PathType_v1beta1 bad_b)"
    using that by (simp add: pathTypeSwitch_v1beta1_skip_iff pathsLoop_v1beta1_skip_one)
  have b: "pathTypeSwitch_v1 bad_v = Inr None
      \<and> (Service_v1 (Backend_v1 bad_v) \<noteq> None \<longrightarrow>
           pathsLoop_v1 svc wc (xs_v @ bad_v # ys_v) pol
             = pathsLoop_v1 svc wc (xs_v @ ys_v) pol)"
    if "unknownPathType (PathType_v1 bad_v)"
    using that pathsLoop_v1_skip_one [of bad_v svc wc xs_v ys_v pol]
    by (simp add: pathTypeSwitch_v1_skip_iff skipped_v1_def)
  have c: "\<exists>pol'. pathsLoop_v1beta1 svc wc (Paths_v1beta1 http_b)
            (NewInboundTrafficPolicy
               (getIngressTrafficPolicyName (metaName (ObjectMeta_v1beta1 ingress_b))
                  (metaNamespace (ObjectMeta_v1beta1 ingress_b))
                  (if Host_v1beta1 rule_b = [] then WildcardHTTPMethod else Host_v1beta1 rule_b))
               [if Host_v1beta1 rule_b = [] then WildcardHTTPMethod else Host_v1beta1 rule_b])
          = Inr pol'
        \<and> (Rules pol' \<noteq> [] \<longleftrightarrow>
             (\<exists>ip \<in> set (Paths_v1beta1 http_b).
                ServiceName (Backend_v1beta1 ip) = Name svc
                \<and> \<not> unknownPathType (PathType_v1beta1 ip)))
        \<and> rulesLoop_v1beta1 svc wc ingress_b (rule_b # rest_b) acc =
            (if Rules pol' \<noteq> [] then
               (case MergeInboundPolicies DisallowPartialHostnamesMatch acc pol' of
                  Inl c \<Rightarrow> Inl c
                | Inr merged \<Rightarrow> rulesLoop_v1beta1 svc wc ingress_b rest_b merged)
             else rulesLoop_v1beta1 svc wc ingress_b rest_b acc)"
    if "HTTP_v1beta1 rule_b = Some http_b"
    using that by (rule rulesLoop_v1beta1_step)
  have d: "\<exists>pol'. pathsLoop_v1 svc wc (Paths_v1 http_v)
            (NewInboundTrafficPolicy
               (getIngressTrafficPolicyName (metaName (ObjectMeta_v1 ingress_v))
                  (metaNamespace (ObjectMeta_v1 ingress_v))
                  (if Host_v1 rule_v = [] then WildcardHTTPMethod else Host_v1 rule_v))
               [if Host_v1 rule_v = [] then WildcardHTTPMethod else Host_v1 rule_v])
          = Inr pol'
        \<and> (Rules pol' \<noteq> [] \<longleftrightarrow>
             (\<exists>ip \<in> set (Paths_v1 http_v).
                map_option ServiceBackendName (Service_v1 (Backend_v1 ip)) = Some (Name svc)
                \<and> \<not> unknownPathType (PathType_v1 ip)))
        \<and> rulesLoop_v1 svc wc ingress_v (rule_v # rest_v) acc =
            (if Rules pol' \<noteq> [] then
               (case MergeInboundPolicies DisallowPartialHostnamesMatch acc pol' of
                  Inl c \<Rightarrow> Inl c
                | Inr merged \<Rightarrow> rulesLoop_v1 svc wc ingress_v rest_v merged)
             else rulesLoop_v1 svc wc ingress_v rest_v acc)"
    if "HTTP_v1 rule_v = Some http_v \<and> servicesSet_v1 (Paths_v1 http_v)"
    using that rulesLoop_v1_step [of rule_v http_v] by blast
  show ?thesis
    using a b c d getIngressPoliciesNetworkingV1beta1_filter [of mc svc]
      getIngressPoliciesNetworkingV1_filter [of mc svc]
    by (intro conjI impI) blast+
qed

theorem unknown_path_type_skips_only_that_path_witness:
  "unknownPathType (PathType_v1beta1 oldPath_v1beta1)
   \<and> unknownPathType (PathType_v1 oldPath_v1)
   \<and> Service_v1 (Backend_v1 oldPath_v1) \<noteq> None
   \<and> pathsLoop_v1beta1 webService (getDefaultWeightedClusterForService webService)
       [cartPath_v1beta1, oldPath_v1beta1, imgPath_v1beta1]
       (NewInboundTrafficPolicy ''front.shop|shop.example.com'' [''shop.example.com''])
     = Inr shopPolicy
   \<and> pathsLoop_v1beta1 webService (getDefaultWeightedClusterForService webService)
       [cartPath_v1beta1, imgPath_v1beta1]
       (NewInboundTrafficPolicy ''front.shop|shop.example.com'' [''shop.example.com''])
     = Inr shopPolicy
   \<and> pathsLoop_v1 webService (getDefaultWeightedClusterForService webService)
       [cartPath_v1, oldPath_v1, imgPath_v1]
       (NewInboundTrafficPolicy ''front.shop|shop.example.com'' [''shop.example.com''])
     = Inr shopPolicy
   \<and> getIngressPoliciesNetworkingV1beta1 shopCatalog webService = Inr ([shopPolicy], None)
   \<and> getIngressPoliciesNetworkingV1 shopCatalog webService = Inr ([shopPolicy], None)"
proof -
  have u: "unknownPathType (PathType_v1beta1 oldPath_v1beta1)"
      "unknownPathType (PathType_v1 oldPath_v1)"
    by (simp_all add: unknownPathType_def oldPath_v1beta1_def oldPath_v1_def PathTypeExact_def
        PathTypePrefix_def PathTypeImplementationSpecific_def)
  have set: "Service_v1 (Backend_v1 oldPath_v1) \<noteq> None"
    by (simp add: oldPath_v1_def)
  have short_b: "pathsLoop_v1beta1 webService (getDefaultWeightedClusterForService webService)
       ([cartPath_v1beta1] @ [imgPath_v1beta1])
       (NewInboundTrafficPolicy ''front.shop|shop.example.com'' [''shop.example.com''])
     = Inr shopPolicy"
    by (simp add: sample_defs model_defs)
  have short_v: "pathsLoop_v1 webService (getDefaultWeightedClusterForService webService)
       ([cartPath_v1] @ [imgPath_v1])
       (NewInboundTrafficPolicy ''front.shop|shop.example.com'' [''shop.example.com''])
     = Inr shopPolicy"
    by (simp add: sample_defs model_defs)
  from unknown_path_type_skips_only_that_path
    [of oldPath_v1beta1 webService "getDefaultWeightedClusterForService webService"
        "[cartPath_v1beta1]" "[imgPath_v1beta1]"
        "NewInboundTrafficPolicy ''front.shop|shop.example.com'' [''shop.example.com'']"
        oldPath_v1 "[cartPath_v1]" "[imgPath_v1]"]
    u set short_b short_v
  have "pathsLoop_v1beta1 webService (getDefaultWeightedClusterForService webService)
         ([cartPath_v1beta1] @ oldPath_v1beta1 # [imgPath_v1beta1])
         (NewInboundTrafficPolicy ''front.shop|shop.example.com'' [''shop.example.com''])
       = Inr shopPolicy
     \<and> pathsLoop_v1 webService (getDefaultWeightedClusterForService webService)
         ([cartPath_v1] @ oldPath_v1 # [imgPath_v1])
         (NewInboundTrafficPolicy ''front.shop|shop.example.com'' [''shop.example.com''])
       = Inr shopPolicy"
    by simp
  with u set short_b shopCatalog_v1beta1 shopCatalog_v1 show ?thesis
    by simp
qed

subsection \<open>The two extractors on equivalent objects\<close>

text \<open>
  On objects of version v1 in which every backend has its service set and every rule its
  \<^verbatim>\<open>HTTP\<close>, the two extractors return the same for equivalent lists.
\<close>

lemma pathTypeSwitch_equivalent:
  "equivalentPath p1 p \<Longrightarrow> pathTypeSwitch_v1 p1 = pathTypeSwitch_v1beta1 p"
proof -
  assume "equivalentPath p1 p"
  then have a: "Path_v1 p1 = Path_v1beta1 p" and b: "PathType_v1 p1 = PathType_v1beta1 p"
    by (simp_all add: equivalentPath_def)
  show ?thesis
    unfolding pathTypeSwitch_v1_def pathTypeSwitch_v1beta1_def a b ..
qed

lemma pathsLoop_equivalent:
  "list_all2 equivalentPath ps1 ps \<Longrightarrow> servicesSet_v1 ps1 \<Longrightarrow>
   pathsLoop_v1 svc wc ps1 pol = pathsLoop_v1beta1 svc wc ps pol"
proof (induction ps1 ps arbitrary: pol rule: list_all2_induct)
  case Nil
  show ?case by simp
next
  case (Cons p1 ps1 p ps)
  from Cons.prems obtain service where service: "Service_v1 (Backend_v1 p1) = Some service"
    and rest: "servicesSet_v1 ps1"
    by (auto simp add: servicesSet_v1_def)
  have sw: "pathTypeSwitch_v1 p1 = pathTypeSwitch_v1beta1 p"
    using Cons.hyps(1) by (rule pathTypeSwitch_equivalent)
  have be: "ServiceBackendName service = ServiceName (Backend_v1beta1 p)"
    using Cons.hyps(1) service by (simp add: equivalentPath_def equivalentBackend_def)
  show ?case
    by (simp add: service sw be Cons.IH [OF rest] split: sum.splits option.splits)
qed

lemma rulesLoop_equivalent:
  assumes "ObjectMeta_v1 i1 = ObjectMeta_v1beta1 i"
  shows "list_all2 equivalentRule rs1 rs \<Longrightarrow>
         list_all (\<lambda>rule. case HTTP_v1 rule of
                            None \<Rightarrow> False
                          | Some http \<Rightarrow> servicesSet_v1 (Paths_v1 http)) rs1 \<Longrightarrow>
         rulesLoop_v1 svc wc i1 rs1 acc = rulesLoop_v1beta1 svc wc i rs acc"
proof (induction rs1 rs arbitrary: acc rule: list_all2_induct)
  case Nil
  show ?case by simp
next
  case (Cons r1 rs1 r rs)
  from Cons.prems obtain http1 where http1: "HTTP_v1 r1 = Some http1"
    and set: "servicesSet_v1 (Paths_v1 http1)"
    and rest: "list_all (\<lambda>rule. case HTTP_v1 rule of
                            None \<Rightarrow> False
                          | Some http \<Rightarrow> servicesSet_v1 (Paths_v1 http)) rs1"
    by (auto split: option.splits)
  have host: "Host_v1 r1 = Host_v1beta1 r"
    using Cons.hyps(1) by (simp add: equivalentRule_def)
  from Cons.hyps(1) http1 obtain http where http: "HTTP_v1beta1 r = Some http"
    and rel: "list_all2 equivalentPath (Paths_v1 http1) (Paths_v1beta1 http)"
    by (auto simp add: equivalentRule_def option_rel_Some1)
  have paths: "pathsLoop_v1 svc wc (Paths_v1 http1) pol
                 = pathsLoop_v1beta1 svc wc (Paths_v1beta1 http) pol" for pol
    using rel set by (rule pathsLoop_equivalent)
  show ?case
    by (simp add: http1 http host paths assms Cons.IH [OF rest] Let_def split: sum.splits)
qed

lemma ingressesLoop_equivalent:
  "list_all2 equivalentIngress is1 is \<Longrightarrow> list_all pointersSet_v1 is1 \<Longrightarrow>
   ingressesLoop_v1 svc wc is1 acc = ingressesLoop_v1beta1 svc wc is acc"
proof (induction is1 "is" arbitrary: acc rule: list_all2_induct)
  case Nil
  show ?case by simp
next
  case (Cons i1 is1 i "is")
  from Cons.prems have set: "pointersSet_v1 i1" and rest: "list_all pointersSet_v1 is1"
    by simp_all
  have meta: "ObjectMeta_v1 i1 = ObjectMeta_v1beta1 i"
    using Cons.hyps(1) by (simp add: equivalentIngress_def)
  have rules: "rulesLoop_v1 svc wc i1 (SpecRules_v1 (Spec_v1 i1)) a
                 = rulesLoop_v1beta1 svc wc i (SpecRules_v1beta1 (Spec_v1beta1 i)) a" for a
    using Cons.hyps(1) set rulesLoop_equivalent [OF meta]
    by (simp add: equivalentIngress_def pointersSet_v1_def)
  have backend: "(case SpecDefaultBackend_v1 (Spec_v1 i1) of
              None \<Rightarrow> Inr acc
            | Some backend \<Rightarrow>
                (case Service_v1 backend of
                   None \<Rightarrow> Inl (NilPointerDereference BackendServicePointer)
                 | Some service \<Rightarrow>
                     if ServiceBackendName service = Name svc then
                       MergeInboundPolicies DisallowPartialHostnamesMatch acc
                         (wildcardIngressPolicy (ObjectMeta_v1 i1) wc)
                     else Inr acc))
          = (case SpecBackend_v1beta1 (Spec_v1beta1 i) of
              None \<Rightarrow> Inr acc
            | Some backend \<Rightarrow>
                if ServiceName backend = Name svc then
                  MergeInboundPolicies DisallowPartialHostnamesMatch acc
                    (wildcardIngressPolicy (ObjectMeta_v1beta1 i) wc)
                else Inr acc)"
  proof -
    have "rel_option equivalentBackend (SpecDefaultBackend_v1 (Spec_v1 i1))
            (SpecBackend_v1beta1 (Spec_v1beta1 i))"
      using Cons.hyps(1) by (simp add: equivalentIngress_def)
    then show ?thesis
      using set
      by (cases rule: option.rel_cases)
         (auto simp add: meta equivalentBackend_def pointersSet_v1_def split: option.splits)
  qed
  show ?case
    unfolding ingressesLoop_v1.simps ingressesLoop_v1beta1.simps backend rules
      Cons.IH [OF rest] ..
qed

lemma extractors_equivalent:
  assumes "list_all2 equivalentIngress (fst (GetIngressNetworkingV1 mc svc))
             (fst (GetIngressNetworkingV1beta1 mc svc))"
    and "snd (GetIngressNetworkingV1 mc svc) = snd (GetIngressNetworkingV1beta1 mc svc)"
    and "list_all pointersSet_v1 (fst (GetIngressNetworkingV1 mc svc))"
  shows "getIngressPoliciesNetworkingV1 mc svc = getIngressPoliciesNetworkingV1beta1 mc svc"
proof -
  obtain is1 e1 where f1: "GetIngressNetworkingV1 mc svc = (is1, e1)"
    by (cases "GetIngressNetworkingV1 mc svc")
  obtain "is" e where f: "GetIngressNetworkingV1beta1 mc svc = (is, e)"
    by (cases "GetIngressNetworkingV1beta1 mc svc")
  from assms f1 f have rel: "list_all2 equivalentIngress is1 is" and err: "e1 = e"
    and set: "list_all pointersSet_v1 is1"
    by simp_all
  have len: "length is1 = length is"
    using rel by (rule list_all2_lengthD)
  show ?thesis
    by (simp add: getIngressPoliciesNetworkingV1_def getIngressPoliciesNetworkingV1beta1_def
        f1 f err len ingressesLoop_equivalent [OF rel set] split: option.splits)
qed

subsection \<open>Equivalence of the schema versions\<close>

text \<open>
  Claim C9 says that the two extractors return identical policy lists on equivalent
  lists of objects. The code does not: on an object with a path entry for the service and
  a path entry whose backend is a resource, which is the same object in both versions
  field for field, the extractor of version v1beta1 skips the resource entry and returns
  the policy of the other entries, while the extractor of version v1 panics on the nil
  \<^verbatim>\<open>Service\<close> pointer at line 272 and returns nothing.
\<close>

theorem extractors_differ_on_resource_backend:
  "list_all2 equivalentIngress (fst (GetIngressNetworkingV1 bucketCatalog webService))
     (fst (GetIngressNetworkingV1beta1 bucketCatalog webService))
   \<and> snd (GetIngressNetworkingV1 bucketCatalog webService)
       = snd (GetIngressNetworkingV1beta1 bucketCatalog webService)
   \<and> getIngressPoliciesNetworkingV1beta1 bucketCatalog webService = Inr ([shopPolicy], None)
   \<and> getIngressPoliciesNetworkingV1 bucketCatalog webService
       = Inl (NilPointerDereference BackendServicePointer)"
proof -
  have rel: "list_all2 equivalentIngress (fst (GetIngressNetworkingV1 bucketCatalog webService))
     (fst (GetIngressNetworkingV1beta1 bucketCatalog webService))"
    by (simp add: sample_defs equivalentIngress_def equivalentRule_def equivalentPath_def
        equivalentBackend_def)
  have err: "snd (GetIngressNetworkingV1 bucketCatalog webService)
       = snd (GetIngressNetworkingV1beta1 bucketCatalog webService)"
    by (simp add: bucketCatalog_def)
  have b: "getIngressPoliciesNetworkingV1beta1 bucketCatalog webService
             = Inr ([shopPolicy], None)"
    by (simp add: getIngressPoliciesNetworkingV1beta1_def sample_defs model_defs)
  have v: "getIngressPoliciesNetworkingV1 bucketCatalog webService
       = Inl (NilPointerDereference BackendServicePointer)"
    by (simp add: getIngressPoliciesNetworkingV1_def sample_defs model_defs)
  from rel err b v show ?thesis by simp
qed

subsection \<open>Default backends\<close>

lemma wildcardIngressPolicy_eq:
  "wildcardIngressPolicy meta wc =
     \<lparr>PolicyName = getIngressTrafficPolicyName (metaName meta) (metaNamespace meta)
                     WildcardHTTPMethod,
      Hostnames = [WildcardHTTPMethod],
      Rules = [\<lparr>Route = \<lparr>HTTPRouteMatch = WildCardRouteMatch, WeightedClusters = [wc]\<rparr>,
                AllowedServiceIdentities = [WildcardServiceIdentity]\<rparr>]\<rparr>"
  by (simp add: wildcardIngressPolicy_def AddRule_def NewInboundTrafficPolicy_def
      NewRouteWeightedCluster_def)

lemma MergeInboundPolicies_empty:
  "MergeInboundPolicies s [] latest = Inr [latest]"
  by (simp add: MergeInboundPolicies_def)

lemma ingressesLoop_v1beta1_default_backend:
  "SpecBackend_v1beta1 (Spec_v1beta1 ingress) = Some backend \<Longrightarrow>
   ServiceName backend = Name svc \<Longrightarrow>
   ingressesLoop_v1beta1 svc wc (ingress # rest) acc =
     (case MergeInboundPolicies DisallowPartialHostnamesMatch acc
             (wildcardIngressPolicy (ObjectMeta_v1beta1 ingress) wc) of
        Inl c \<Rightarrow> Inl c
      | Inr afterBackend \<Rightarrow>
          (case rulesLoop_v1beta1 svc wc ingress (SpecRules_v1beta1 (Spec_v1beta1 ingress))
                  afterBackend of
             Inl c \<Rightarrow> Inl c
           | Inr afterRules \<Rightarrow> ingressesLoop_v1beta1 svc wc rest afterRules))"
  by simp

lemma ingressesLoop_v1_default_backend:
  "SpecDefaultBackend_v1 (Spec_v1 ingress) = Some backend \<Longrightarrow>
   Service_v1 backend = Some service \<Longrightarrow>
   ServiceBackendName service = Name svc \<Longrightarrow>
   ingressesLoop_v1 svc wc (ingress # rest) acc =
     (case MergeInboundPolicies DisallowPartialHostnamesMatch acc
             (wildcardIngressPolicy (ObjectMeta_v1 ingress) wc) of
        Inl c \<Rightarrow> Inl c
      | Inr afterBackend \<Rightarrow>
          (case rulesLoop_v1 svc wc ingress (SpecRules_v1 (Spec_v1 ingress)) afterBackend of
             Inl c \<Rightarrow> Inl c
           | Inr afterRules \<Rightarrow> ingressesLoop_v1 svc wc rest afterRules))"
  by simp

lemma default_backend_only_v1beta1:
  "GetIngressNetworkingV1beta1 mc svc = ([ingress], None) \<Longrightarrow>
   SpecBackend_v1beta1 (Spec_v1beta1 ingress) = Some backend \<Longrightarrow>
   ServiceName backend = Name svc \<Longrightarrow>
   SpecRules_v1beta1 (Spec_v1beta1 ingress) = [] \<Longrightarrow>
   getIngressPoliciesNetworkingV1beta1 mc svc =
     Inr ([wildcardIngressPolicy (ObjectMeta_v1beta1 ingress)
             (getDefaultWeightedClusterForService svc)], None)"
  by (simp add: getIngressPoliciesNetworkingV1beta1_def MergeInboundPolicies_empty)

lemma default_backend_only_v1:
  "GetIngressNetworkingV1 mc svc = ([ingress], None) \<Longrightarrow>
   SpecDefaultBackend_v1 (Spec_v1 ingress) = Some backend \<Longrightarrow>
   Service_v1 backend = Some service \<Longrightarrow>
   ServiceBackendName service = Name svc \<Longrightarrow>
   SpecRules_v1 (Spec_v1 ingress) = [] \<Longrightarrow>
   getIngressPoliciesNetworkingV1 mc svc =
     Inr ([wildcardIngressPolicy (ObjectMeta_v1 ingress)
             (getDefaultWeightedClusterForService svc)], None)"
  by (simp add: getIngressPoliciesNetworkingV1_def MergeInboundPolicies_empty)

text \<open>
  Claim C8. For an ingress object whose default backend names the service, each extractor
  first merges into the accumulated result a policy keyed by the wildcard hostname alone,
  whose only rule sends the wildcard route match to the default weighted cluster of the
  service, at full weight, for the wildcard identity; the rules of the object come after.
  When the monitor returns one such object and it has no rules, the extractor returns
  exactly that one policy.
\<close>

theorem default_backend_wildcard_policy:
  "wildcardIngressPolicy meta wc =
     \<lparr>PolicyName = getIngressTrafficPolicyName (metaName meta) (metaNamespace meta)
                     WildcardHTTPMethod,
      Hostnames = [WildcardHTTPMethod],
      Rules = [\<lparr>Route = \<lparr>HTTPRouteMatch = WildCardRouteMatch, WeightedClusters = [wc]\<rparr>,
                AllowedServiceIdentities = [WildcardServiceIdentity]\<rparr>]\<rparr>
   \<and> Weight (getDefaultWeightedClusterForService svc) = ClusterWeightAcceptAll
   \<and> (SpecBackend_v1beta1 (Spec_v1beta1 ingress_b) = Some backend_b
        \<and> ServiceName backend_b = Name svc \<longrightarrow>
      ingressesLoop_v1beta1 svc wc (ingress_b # rest_b) acc =
        (case MergeInboundPolicies DisallowPartialHostnamesMatch acc
                (wildcardIngressPolicy (ObjectMeta_v1beta1 ingress_b) wc) of
           Inl c \<Rightarrow> Inl c
         | Inr afterBackend \<Rightarrow>
             (case rulesLoop_v1beta1 svc wc ingress_b
                     (SpecRules_v1beta1 (Spec_v1beta1 ingress_b)) afterBackend of
                Inl c \<Rightarrow> Inl c
              | Inr afterRules \<Rightarrow> ingressesLoop_v1beta1 svc wc rest_b afterRules)))
   \<and> (SpecDefaultBackend_v1 (Spec_v1 ingress_v) = Some backend_v
        \<and> Service_v1 backend_v = Some service_v
        \<and> ServiceBackendName service_v = Name svc \<longrightarrow>
      ingressesLoop_v1 svc wc (ingress_v # rest_v) acc =
        (case MergeInboundPolicies DisallowPartialHostnamesMatch acc
                (wildcardIngressPolicy (ObjectMeta_v1 ingress_v) wc) of
           Inl c \<Rightarrow> Inl c
         | Inr afterBackend \<Rightarrow>
             (case rulesLoop_v1 svc wc ingress_v (SpecRules_v1 (Spec_v1 ingress_v))
                     afterBackend of
                Inl c \<Rightarrow> Inl c
              | Inr afterRules \<Rightarrow> ingressesLoop_v1 svc wc rest_v afterRules)))
   \<and> (GetIngressNetworkingV1beta1 mc svc = ([ingress_b], None)
        \<and> SpecBackend_v1beta1 (Spec_v1beta1 ingress_b) = Some backend_b
        \<and> ServiceName backend_b = Name svc
        \<and> SpecRules_v1beta1 (Spec_v1beta1 ingress_b) = [] \<longrightarrow>
      getIngressPoliciesNetworkingV1beta1 mc svc =
        Inr ([wildcardIngressPolicy (ObjectMeta_v1beta1 ingress_b)
                (getDefaultWeightedClusterForService svc)], None))
   \<and> (GetIngressNetworkingV1 mc svc = ([ingress_v], None)
        \<and> SpecDefaultBackend_v1 (Spec_v1 ingress_v) = Some backend_v
        \<and> Service_v1 backend_v = Some service_v
        \<and> ServiceBackendName service_v = Name svc
        \<and> SpecRules_v1 (Spec_v1 ingress_v) = [] \<longrightarrow>
      getIngressPoliciesNetworkingV1 mc svc =
        Inr ([wildcardIngressPolicy (ObjectMeta_v1 ingress_v)
                (getDefaultWeightedClusterForService svc)], None))"
proof -
  have w: "Weight (getDefaultWeightedClusterForService svc) = ClusterWeightAcceptAll"
    by (simp add: getDefaultWeightedClusterForService_def)
  show ?thesis
    using w wildcardIngressPolicy_eq [of meta wc]
      ingressesLoop_v1beta1_default_backend [of ingress_b backend_b svc wc rest_b acc]
      ingressesLoop_v1_default_backend [of ingress_v backend_v service_v svc wc rest_v acc]
      default_backend_only_v1beta1 [of mc svc ingress_b backend_b]
      default_backend_only_v1 [of mc svc ingress_v backend_v service_v]
    by blast
qed

theorem default_backend_wildcard_policy_witness:
  "getIngressPoliciesNetworkingV1beta1 servingCatalog webService =
     Inr ([\<lparr>PolicyName = ''front.shop|*'', Hostnames = [''*''],
            Rules = [\<lparr>Route = \<lparr>HTTPRouteMatch = WildCardRouteMatch,
                               WeightedClusters =
                                 [\<lparr>ClusterName = ''shop/web'', Weight = 100\<rparr>]\<rparr>,
                      AllowedServiceIdentities = [''*'']\<rparr>]\<rparr>], None)
   \<and> getIngressPoliciesNetworkingV1 noPortsCatalog webService =
     Inr ([\<lparr>PolicyName = ''front.shop|*'', Hostnames = [''*''],
            Rules = [\<lparr>Route = \<lparr>HTTPRouteMatch = WildCardRouteMatch,
                               WeightedClusters =
                                 [\<lparr>ClusterName = ''shop/web'', Weight = 100\<rparr>]\<rparr>,
                      AllowedServiceIdentities = [''*'']\<rparr>]\<rparr>], None)"
proof -
  have fb: "GetIngressNetworkingV1beta1 servingCatalog webService
              = ([defaultBackendIngress_v1beta1], None)"
    by (simp add: servingCatalog_def)
  have f1: "GetIngressNetworkingV1 noPortsCatalog webService = ([defaultBackendIngress_v1], None)"
    by (simp add: noPortsCatalog_def)
  have hb: "SpecBackend_v1beta1 (Spec_v1beta1 defaultBackendIngress_v1beta1)
              = Some \<lparr>ServiceName = ''web''\<rparr>
          \<and> ServiceName \<lparr>ServiceName = ''web''\<rparr> = Name webService
          \<and> SpecRules_v1beta1 (Spec_v1beta1 defaultBackendIngress_v1beta1) = []"
    by (simp add: defaultBackendIngress_v1beta1_def webService_def)
  have h1: "SpecDefaultBackend_v1 (Spec_v1 defaultBackendIngress_v1)
              = Some \<lparr>Service_v1 = Some \<lparr>ServiceBackendName = ''web''\<rparr>\<rparr>
          \<and> Service_v1 \<lparr>Service_v1 = Some \<lparr>ServiceBackendName = ''web''\<rparr>\<rparr>
              = Some \<lparr>ServiceBackendName = ''web''\<rparr>
          \<and> ServiceBackendName \<lparr>ServiceBackendName = ''web''\<rparr> = Name webService
          \<and> SpecRules_v1 (Spec_v1 defaultBackendIngress_v1) = []"
    by (simp add: defaultBackendIngress_v1_def webService_def)
  have metas: "ObjectMeta_v1beta1 defaultBackendIngress_v1beta1
                 = \<lparr>metaName = ''front'', metaNamespace = ''shop''\<rparr>"
      "ObjectMeta_v1 defaultBackendIngress_v1 = \<lparr>metaName = ''front'', metaNamespace = ''shop''\<rparr>"
    by (simp_all add: defaultBackendIngress_v1beta1_def defaultBackendIngress_v1_def)
  have cluster: "getDefaultWeightedClusterForService webService
                   = \<lparr>ClusterName = ''shop/web'', Weight = 100\<rparr>"
    by (simp add: getDefaultWeightedClusterForService_def webService_def
        ClusterWeightAcceptAll_def)
  have w: "wildcardIngressPolicy \<lparr>metaName = ''front'', metaNamespace = ''shop''\<rparr>
                \<lparr>ClusterName = ''shop/web'', Weight = 100\<rparr>
          = \<lparr>PolicyName = ''front.shop|*'', Hostnames = [''*''],
            Rules = [\<lparr>Route = \<lparr>HTTPRouteMatch = WildCardRouteMatch,
                               WeightedClusters =
                                 [\<lparr>ClusterName = ''shop/web'', Weight = 100\<rparr>]\<rparr>,
                      AllowedServiceIdentities = [''*'']\<rparr>]\<rparr>"
    by (simp add: wildcardIngressPolicy_eq getIngressTrafficPolicyName_def
        WildcardHTTPMethod_def WildcardServiceIdentity_def)
  have b: "getIngressPoliciesNetworkingV1beta1 servingCatalog webService =
        Inr ([wildcardIngressPolicy (ObjectMeta_v1beta1 defaultBackendIngress_v1beta1)
                (getDefaultWeightedClusterForService webService)], None)"
    using default_backend_wildcard_policy
      [where svc = webService and ingress_b = defaultBackendIngress_v1beta1
         and backend_b = "\<lparr>ServiceName = ''web''\<rparr>" and mc = servingCatalog]
      fb hb
    by blast
  have a: "getIngressPoliciesNetworkingV1 noPortsCatalog webService =
        Inr ([wildcardIngressPolicy (ObjectMeta_v1 defaultBackendIngress_v1)
                (getDefaultWeightedClusterForService webService)], None)"
    using default_backend_wildcard_policy
      [where svc = webService and ingress_v = defaultBackendIngress_v1
         and backend_v = "\<lparr>Service_v1 = Some \<lparr>ServiceBackendName = ''web''\<rparr>\<rparr>"
         and service_v = "\<lparr>ServiceBackendName = ''web''\<rparr>"
         and mc = noPortsCatalog]
      f1 h1
    by blast
  show ?thesis
    unfolding a b metas cluster w by simp

qed

subsection \<open>A merge that meets a partial overlap\<close>









subsection \<open>A failed merge stops the extraction\<close>








end
